theory Spec2Isabelle
  imports Main
begin

section \<open>Data model\<close>

text \<open>
  The rows of the tables that \<^verbatim>\<open>Database\<close> (src/main.py) reads and writes. Every row is a
  dictionary in the source; the fields kept are the columns the modelled statements use.
  Identifiers and capacities are Python integers. \<^verbatim>\<open>Status\<close> is a string, compared with the
  literals \<^verbatim>\<open>'Pending'\<close>, \<^verbatim>\<open>'Confirmed'\<close>, \<^verbatim>\<open>'Cancelled'\<close>. \<^verbatim>\<open>Price\<close> and
  \<^verbatim>\<open>Amount\<close> are decimal columns; they are only copied and compared with zero, and are taken
  in minor units as integers. Dates and timestamps are values of an abstract clock.
\<close>

record organizer =
  Organizer_id :: int
  Organizer_Name :: string

record venue =
  Venue_id :: int
  Venue_Name :: string
  Capacity :: int

record participant =
  Participant_id :: int
  Participant_Email :: string

record event =
  Event_id :: int
  Event_Name :: string
  Event_Venue_id :: int
  Event_Organizer_id :: int

record sponsor =
  Sponsor_id :: int
  Sponsor_Event_id :: int

record volunteer =
  Volunteer_id :: int
  Volunteer_Event_id :: int

record ticket =
  Ticket_id :: int
  Ticket_Event_id :: int
  Ticket_Participant_id :: int
  Status :: string
  Price :: int

record payment =
  Payment_id :: int
  Payment_Ticket_id :: int
  Amount :: int
  Method :: string
  Payment_Date :: nat

record user =
  User_id :: int
  Username :: string

record log_row =
  Timestamp :: nat
  Log_Message :: string

text \<open>One value per table: the shape of the storage and of the attributes that
  \<^verbatim>\<open>refresh_all_data\<close> assigns (\<^verbatim>\<open>self.organizers\<close>, ..., \<^verbatim>\<open>self.users\<close>).\<close>

record tables =
  organizers :: "organizer list"
  venues :: "venue list"
  participants :: "participant list"
  events :: "event list"
  sponsors :: "sponsor list"
  volunteers :: "volunteer list"
  tickets :: "ticket list"
  payments :: "payment list"
  users :: "user list"

text \<open>The \<^verbatim>\<open>DELETE\<close> statements that \<^verbatim>\<open>delete_event\<close> sends through its cursor
  (lines 367-380), each with its parameter.\<close>

datatype statement =
  DeletePayment int | DeleteTicket int | DeleteVolunteers int | DeleteSponsor int | DeleteEvent int

text \<open>The \<^verbatim>\<open>Database\<close> object together with the server it talks to. \<open>db\<close> is the
  committed content of the entity tables and \<open>db_log\<close> that of the table \<^verbatim>\<open>Log\<close>.
  The connection does not commit by itself: \<open>pending\<close> is the working copy of the tables
  in the transaction that is open on \<^verbatim>\<open>self.connection\<close> (\<open>None\<close> when nothing is
  uncommitted), which \<^verbatim>\<open>commit\<close> makes the committed content and \<^verbatim>\<open>rollback\<close>
  throws away. \<open>sent\<close> lists the statements of type \<open>statement\<close> that the server has
  executed on this connection, oldest first; the source keeps no such list, it is there so
  that the order of the statements can be stated. \<open>cache\<close> holds the in-memory copies and
  \<open>logs\<close> is the list \<^verbatim>\<open>self.logs\<close>.\<close>

record database =
  db :: tables
  db_log :: "log_row list"
  pending :: "tables option"
  sent :: "statement list"
  cache :: tables
  logs :: "log_row list"

text \<open>What a statement on the connection reads: its own uncommitted changes when a
  transaction is open, the committed tables otherwise.\<close>

definition visible :: "database \<Rightarrow> tables" where
  "visible s = (case pending s of None \<Rightarrow> db s | Some W \<Rightarrow> W)"

text \<open>\<^verbatim>\<open>self.connection.commit()\<close> and \<^verbatim>\<open>self.connection.rollback()\<close>.\<close>

definition commit :: "database \<Rightarrow> database" where
  "commit s = s\<lparr>db := visible s, pending := None\<rparr>"

definition rollback :: "database \<Rightarrow> database" where
  "rollback s = s\<lparr>pending := None\<rparr>"

text \<open>What a statement sent to the server may do besides executing: raise
  \<^verbatim>\<open>mysql.connector.Error\<close> (\<open>SqlError\<close>: the routine or table is missing, a constraint or
  trigger rejects the row, the connection drops), or raise another exception (\<open>Crash\<close>:
  \<^verbatim>\<open>self.connection\<close> is \<^verbatim>\<open>None\<close> after a failed \<^verbatim>\<open>connect\<close>, so that
  \<^verbatim>\<open>self.connection.cursor\<close> raises \<^verbatim>\<open>AttributeError\<close>).\<close>

datatype fault = NoFault | SqlError | Crash

text \<open>The result of a method: it returns a value, or an exception leaves it.\<close>

datatype 'a outcome = Returned 'a | Raised

section \<open>Printing integers\<close>

definition digit_char :: "nat \<Rightarrow> char" where
  "digit_char d = char_of (48 + d)"

fun string_of_nat :: "nat \<Rightarrow> string" where
  "string_of_nat n =
     (if n < 10 then [digit_char n] else string_of_nat (n div 10) @ [digit_char (n mod 10)])"

declare string_of_nat.simps [simp del]

definition str :: "int \<Rightarrow> string" where
  "str i = (if i < 0 then CHR ''-'' # string_of_nat (nat (- i)) else string_of_nat (nat i))"

section \<open>execute_query\<close>

text \<open>
  \<^verbatim>\<open>execute_query(query, params, fetch=True)\<close>: the rows on success, the empty list when the
  statement raises \<^verbatim>\<open>Error\<close> (caught inside), and the exception itself otherwise.
  \<open>rows\<close> is what the statement selects; \<open>None\<close> there stands for a statement that the
  server rejects while evaluating it.
\<close>

fun execute_fetch :: "fault \<Rightarrow> 'a list option \<Rightarrow> 'a list outcome" where
  "execute_fetch NoFault (Some rows) = Returned rows"
| "execute_fetch NoFault None = Returned []"
| "execute_fetch SqlError rows = Returned []"
| "execute_fetch Crash rows = Raised"

text \<open>
  \<^verbatim>\<open>execute_query(query, params)\<close> with \<^verbatim>\<open>fetch=False\<close>: executes the statement in the
  open transaction and commits, returning \<^verbatim>\<open>True\<close>; returns \<^verbatim>\<open>False\<close> on
  \<^verbatim>\<open>Error\<close>, with no \<^verbatim>\<open>rollback\<close>, so that the state is as it was.
\<close>

fun execute_write :: "fault \<Rightarrow> (tables \<Rightarrow> tables) \<Rightarrow> database \<Rightarrow> bool outcome \<times> database" where
  "execute_write NoFault upd s = (Returned True, commit (s\<lparr>pending := Some (upd (visible s))\<rparr>))"
| "execute_write SqlError upd s = (Returned False, s)"
| "execute_write Crash upd s = (Raised, s)"

section \<open>Tiered queries\<close>

text \<open>\<^verbatim>\<open>COUNT\<close> of the confirmed tickets of an event, in SQL
  (\<^verbatim>\<open>WHERE Event_id = p AND Status = 'Confirmed'\<close>) and in Python
  (\<^verbatim>\<open>sum(1 for t in self.tickets if ...)\<close>).\<close>

definition confirmed_tickets :: "ticket list \<Rightarrow> int \<Rightarrow> int" where
  "confirmed_tickets ts event_id =
     int (length (filter (\<lambda>t. Ticket_Event_id t = event_id \<and> Status t = ''Confirmed'') ts))"

text \<open>\<^verbatim>\<open>SELECT ... INTO v\<close> in a stored function: no row leaves \<open>v\<close> NULL
  (\<open>Some None\<close>), one row sets it, several rows are an error (\<open>None\<close>).\<close>

fun select_into :: "'a list \<Rightarrow> 'a option option" where
  "select_into [] = Some None"
| "select_into [x] = Some (Some x)"
| "select_into (x # y # ys) = None"

text \<open>A \<^verbatim>\<open>SELECT FN(...) AS col\<close> is one row holding the function's value.\<close>

definition select_function :: "'a option option \<Rightarrow> 'a option list option" where
  "select_function r = map_option (\<lambda>v. [v]) r"

subsection \<open>get_available_capacity\<close>

text \<open>The routine \<^verbatim>\<open>FN_GetAvailableCapacity\<close> as src/main.py lines 201-216 give it.\<close>

definition FN_GetAvailableCapacity :: "tables \<Rightarrow> int \<Rightarrow> int option option" where
  "FN_GetAvailableCapacity T p_event_id =
     (case select_into (concat (map (\<lambda>e. map Capacity
              (filter (\<lambda>v. Event_Venue_id e = Venue_id v) (venues T)))
              (filter (\<lambda>e. Event_id e = p_event_id) (events T)))) of
        None \<Rightarrow> None
      | Some None \<Rightarrow> Some None
      | Some (Some v_capacity) \<Rightarrow>
          Some (Some (v_capacity - confirmed_tickets (tickets T) p_event_id)))"

text \<open>Tier 1 (lines 573-580): the value when the row is there and not NULL; \<open>None\<close> is
  the fall through to the next tier.\<close>

definition capacity_tier1 :: "fault \<Rightarrow> tables \<Rightarrow> int \<Rightarrow> int option" where
  "capacity_tier1 f T event_id =
     (case execute_fetch f (select_function (FN_GetAvailableCapacity T event_id)) of
        Raised \<Rightarrow> None
      | Returned [] \<Rightarrow> None
      | Returned (r # rs) \<Rightarrow> r)"

text \<open>The query of tier 2 (lines 584-591): \<^verbatim>\<open>Event JOIN Venue LEFT JOIN Ticket\<close>
  grouped by \<^verbatim>\<open>v.Capacity\<close>, one row per capacity with the capacity minus the number of
  joined confirmed tickets.\<close>

definition capacity_query :: "tables \<Rightarrow> int \<Rightarrow> int list" where
  "capacity_query T event_id =
     (let joined = concat (map (\<lambda>e. map (\<lambda>v. (e, v))
              (filter (\<lambda>v. Event_Venue_id e = Venue_id v) (venues T)))
              (filter (\<lambda>e. Event_id e = event_id) (events T)))
      in map (\<lambda>c. c - sum_list (map (\<lambda>(e, v). confirmed_tickets (tickets T) (Event_id e))
                         (filter (\<lambda>(e, v). Capacity v = c) joined)))
             (remdups (map (\<lambda>(e, v). Capacity v) joined)))"

definition capacity_tier2 :: "fault \<Rightarrow> tables \<Rightarrow> int \<Rightarrow> int option" where
  "capacity_tier2 f T event_id =
     (case execute_fetch f (Some (capacity_query T event_id)) of
        Raised \<Rightarrow> None
      | Returned [] \<Rightarrow> None
      | Returned (r # rs) \<Rightarrow> Some r)"

text \<open>Tier 3 (lines 598-606), on the cached tables.\<close>

definition capacity_cached :: "tables \<Rightarrow> int \<Rightarrow> int" where
  "capacity_cached T event_id =
     (case find (\<lambda>e. Event_id e = event_id) (events T) of
        None \<Rightarrow> 0
      | Some e \<Rightarrow>
          (case find (\<lambda>v. Venue_id v = Event_Venue_id e) (venues T) of
             None \<Rightarrow> 0
           | Some v \<Rightarrow> Capacity v - confirmed_tickets (tickets T) event_id))"

definition get_available_capacity :: "fault \<Rightarrow> fault \<Rightarrow> database \<Rightarrow> int \<Rightarrow> int" where
  "get_available_capacity f1 f2 s event_id =
     (case capacity_tier1 f1 (visible s) event_id of
        Some c \<Rightarrow> c
      | None \<Rightarrow>
          (case capacity_tier2 f2 (visible s) event_id of
             Some c \<Rightarrow> c
           | None \<Rightarrow> capacity_cached (cache s) event_id))"

subsection \<open>get_total_confirmed_tickets\<close>

text \<open>\<^verbatim>\<open>FN_GetTotalConfirmedTickets\<close> (lines 247-258): a \<^verbatim>\<open>COUNT\<close>, never NULL.\<close>

definition FN_GetTotalConfirmedTickets :: "tables \<Rightarrow> int \<Rightarrow> int option option" where
  "FN_GetTotalConfirmedTickets T p_event_id = Some (Some (confirmed_tickets (tickets T) p_event_id))"

definition count_tier1 :: "fault \<Rightarrow> tables \<Rightarrow> int \<Rightarrow> int option" where
  "count_tier1 f T event_id =
     (case execute_fetch f (select_function (FN_GetTotalConfirmedTickets T event_id)) of
        Raised \<Rightarrow> None
      | Returned [] \<Rightarrow> None
      | Returned (r # rs) \<Rightarrow> r)"

text \<open>Lines 667-676: the second \<^verbatim>\<open>try\<close> returns in every case where
  \<^verbatim>\<open>execute_query\<close> returns (\<^verbatim>\<open>0\<close> for the empty list); the cached count is in its
  \<^verbatim>\<open>except\<close> branch.\<close>

definition get_total_confirmed_tickets :: "fault \<Rightarrow> fault \<Rightarrow> database \<Rightarrow> int \<Rightarrow> int" where
  "get_total_confirmed_tickets f1 f2 s event_id =
     (case count_tier1 f1 (visible s) event_id of
        Some c \<Rightarrow> c
      | None \<Rightarrow>
          (case execute_fetch f2 (Some [confirmed_tickets (tickets (visible s)) event_id]) of
             Raised \<Rightarrow> confirmed_tickets (tickets (cache s)) event_id
           | Returned [] \<Rightarrow> 0
           | Returned (r # rs) \<Rightarrow> r))"

subsection \<open>get_organizer_name\<close>

text \<open>\<^verbatim>\<open>FN_GetOrganizerName\<close> (lines 289-298).\<close>

definition FN_GetOrganizerName :: "tables \<Rightarrow> int \<Rightarrow> string option option" where
  "FN_GetOrganizerName T p_organizer_id =
     select_into (map Organizer_Name
        (filter (\<lambda>r. Organizer_id r = p_organizer_id) (organizers T)))"

text \<open>Tier 1 (lines 739-746): \<^verbatim>\<open>result and result[0]['name']\<close> holds for a
  string that is neither NULL nor empty.\<close>

definition name_tier1 :: "fault \<Rightarrow> tables \<Rightarrow> int \<Rightarrow> string option" where
  "name_tier1 f T organizer_id =
     (case execute_fetch f (select_function (FN_GetOrganizerName T organizer_id)) of
        Raised \<Rightarrow> None
      | Returned [] \<Rightarrow> None
      | Returned (r # rs) \<Rightarrow>
          (case r of None \<Rightarrow> None | Some n \<Rightarrow> if n = [] then None else Some n))"

text \<open>Tier 2 (lines 749-755).\<close>

definition name_tier2 :: "fault \<Rightarrow> tables \<Rightarrow> int \<Rightarrow> string option" where
  "name_tier2 f T organizer_id =
     (case execute_fetch f (Some (map Organizer_Name
              (filter (\<lambda>r. Organizer_id r = organizer_id) (organizers T)))) of
        Raised \<Rightarrow> None
      | Returned [] \<Rightarrow> None
      | Returned (n # rs) \<Rightarrow> if n = [] then None else Some n)"

text \<open>Tier 3 (lines 758-759).\<close>

definition name_cached :: "tables \<Rightarrow> int \<Rightarrow> string" where
  "name_cached T organizer_id =
     (case find (\<lambda>r. Organizer_id r = organizer_id) (organizers T) of
        None \<Rightarrow> ''Unknown''
      | Some organizer \<Rightarrow> Organizer_Name organizer)"

definition get_organizer_name :: "fault \<Rightarrow> fault \<Rightarrow> database \<Rightarrow> int \<Rightarrow> string" where
  "get_organizer_name f1 f2 s organizer_id =
     (case name_tier1 f1 (visible s) organizer_id of
        Some n \<Rightarrow> n
      | None \<Rightarrow>
          (case name_tier2 f2 (visible s) organizer_id of
             Some n \<Rightarrow> n
           | None \<Rightarrow> name_cached (cache s) organizer_id))"

section \<open>refresh_all_data\<close>

datatype table_name =
  TOrganizer | TVenue | TParticipants | TEvent | TSponsor | TVolunteers | TTicket | TPayment
  | TUsers | TLog

text \<open>One assignment \<^verbatim>\<open>self.x = self.execute_query("SELECT * FROM X", fetch=True) or []\<close>
  (lines 79-86): the fetched rows replace the cached ones; for a list, \<^verbatim>\<open>rows or []\<close> is
  \<^verbatim>\<open>rows\<close>. An exception leaves the method at this line.\<close>

definition assign :: "fault \<Rightarrow> 'a list \<Rightarrow> ('a list \<Rightarrow> tables \<Rightarrow> tables) \<Rightarrow> database \<Rightarrow> database outcome" where
  "assign f rows put s =
     (case execute_fetch f (Some rows) of
        Raised \<Rightarrow> Raised
      | Returned r \<Rightarrow> Returned (s\<lparr>cache := put r (cache s)\<rparr>))"

text \<open>Lines 88-91: the same for \<^verbatim>\<open>users\<close>, inside \<^verbatim>\<open>try ... except: self.users = []\<close>.\<close>

definition assign_users :: "fault \<Rightarrow> database \<Rightarrow> database outcome" where
  "assign_users f s =
     (case execute_fetch f (Some (users (visible s))) of
        Raised \<Rightarrow> Returned (s\<lparr>cache := (cache s)\<lparr>users := []\<rparr>\<rparr>)
      | Returned r \<Rightarrow> Returned (s\<lparr>cache := (cache s)\<lparr>users := r\<rparr>\<rparr>))"

text \<open>Lines 94-99: \<^verbatim>\<open>SELECT * FROM Log ORDER BY Timestamp DESC LIMIT 100\<close>; \<^verbatim>\<open>self.logs\<close>
  is replaced only by a non-empty result, and an exception is passed over.\<close>

definition assign_logs :: "fault \<Rightarrow> database \<Rightarrow> database outcome" where
  "assign_logs f s =
     (case execute_fetch f (Some (take 100 (rev (sort_key Timestamp (db_log s))))) of
        Raised \<Rightarrow> Returned s
      | Returned [] \<Rightarrow> Returned s
      | Returned (r # rs) \<Rightarrow> Returned (s\<lparr>logs := r # rs\<rparr>))"

fun run_assignments :: "(database \<Rightarrow> database outcome) list \<Rightarrow> database \<Rightarrow> unit outcome \<times> database" where
  "run_assignments [] s = (Returned (), s)"
| "run_assignments (a # as) s =
     (case a s of Raised \<Rightarrow> (Raised, s) | Returned s' \<Rightarrow> run_assignments as s')"

definition refresh_all_data :: "(table_name \<Rightarrow> fault) \<Rightarrow> database \<Rightarrow> unit outcome \<times> database" where
  "refresh_all_data F s = run_assignments
     [ (\<lambda>s. assign (F TOrganizer) (organizers (visible s)) (\<lambda>r c. c\<lparr>organizers := r\<rparr>) s),
       (\<lambda>s. assign (F TVenue) (venues (visible s)) (\<lambda>r c. c\<lparr>venues := r\<rparr>) s),
       (\<lambda>s. assign (F TParticipants) (participants (visible s)) (\<lambda>r c. c\<lparr>participants := r\<rparr>) s),
       (\<lambda>s. assign (F TEvent) (events (visible s)) (\<lambda>r c. c\<lparr>events := r\<rparr>) s),
       (\<lambda>s. assign (F TSponsor) (sponsors (visible s)) (\<lambda>r c. c\<lparr>sponsors := r\<rparr>) s),
       (\<lambda>s. assign (F TVolunteers) (volunteers (visible s)) (\<lambda>r c. c\<lparr>volunteers := r\<rparr>) s),
       (\<lambda>s. assign (F TTicket) (tickets (visible s)) (\<lambda>r c. c\<lparr>tickets := r\<rparr>) s),
       (\<lambda>s. assign (F TPayment) (payments (visible s)) (\<lambda>r c. c\<lparr>payments := r\<rparr>) s),
       assign_users (F TUsers),
       assign_logs (F TLog) ] s"

text \<open>\<^verbatim>\<open>export_to_sql_file\<close>, called after most writes, only writes a file and catches every
  exception; it changes none of the state modelled here and is left out.\<close>

text \<open>Two states with the same storage and connection: what a method that only writes
  the cache leaves alone.\<close>

definition same_storage :: "database \<Rightarrow> database \<Rightarrow> bool" where
  "same_storage s' s \<longleftrightarrow>
     db s' = db s \<and> db_log s' = db_log s \<and> pending s' = pending s \<and> sent s' = sent s"

section \<open>log_event_deletion and delete_event\<close>

definition deletion_message :: "int \<Rightarrow> string \<Rightarrow> string" where
  "deletion_message event_id event_name =
     ''Event '' @ str event_id @ '' ('' @ event_name @
     '') was deleted. Volunteers may need re-assignment.''"

text \<open>Lines 767-782. The \<^verbatim>\<open>INSERT INTO Log\<close> goes through \<^verbatim>\<open>execute_query\<close>, which
  commits it (and with it whatever the connection had left uncommitted); an exception of
  any kind is passed over. Whatever happens to the \<^verbatim>\<open>INSERT\<close>, the entry is appended to
  \<^verbatim>\<open>self.logs\<close>. \<open>now\<close> is the clock.\<close>

definition insert_log :: "fault \<Rightarrow> log_row \<Rightarrow> database \<Rightarrow> database" where
  "insert_log f row s =
     (case f of NoFault \<Rightarrow> commit (s\<lparr>db_log := db_log s @ [row]\<rparr>) | _ \<Rightarrow> s)"

definition log_event_deletion :: "nat \<Rightarrow> fault \<Rightarrow> database \<Rightarrow> int \<Rightarrow> string \<Rightarrow> database" where
  "log_event_deletion now f s event_id event_name =
     (let log_message = deletion_message event_id event_name;
          s1 = insert_log f \<lparr>Timestamp = now, Log_Message = log_message\<rparr> s
      in s1\<lparr>logs := logs s1 @ [\<lparr>Timestamp = now, Log_Message = log_message\<rparr>]\<rparr>)"

text \<open>What each \<^verbatim>\<open>DELETE\<close> of the cascade does to the tables it runs on.\<close>

fun execute :: "statement \<Rightarrow> tables \<Rightarrow> tables" where
  "execute (DeletePayment ticket_id) T =
     T\<lparr>payments := filter (\<lambda>p. Payment_Ticket_id p \<noteq> ticket_id) (payments T)\<rparr>"
| "execute (DeleteTicket event_id) T =
     T\<lparr>tickets := filter (\<lambda>t. Ticket_Event_id t \<noteq> event_id) (tickets T)\<rparr>"
| "execute (DeleteVolunteers event_id) T =
     T\<lparr>volunteers := filter (\<lambda>v. Volunteer_Event_id v \<noteq> event_id) (volunteers T)\<rparr>"
| "execute (DeleteSponsor event_id) T =
     T\<lparr>sponsors := filter (\<lambda>x. Sponsor_Event_id x \<noteq> event_id) (sponsors T)\<rparr>"
| "execute (DeleteEvent event_id) T =
     T\<lparr>events := filter (\<lambda>e. Event_id e \<noteq> event_id) (events T)\<rparr>"

text \<open>\<^verbatim>\<open>cursor.execute(statement)\<close> without a commit: the statement runs on what the
  connection sees, its result stays in the open transaction, and the server has executed one
  more statement.\<close>

definition cursor_execute :: "statement \<Rightarrow> database \<Rightarrow> database" where
  "cursor_execute st s = s\<lparr>pending := Some (execute st (visible s)), sent := sent s @ [st]\<rparr>"

text \<open>The statements that the method builds (lines 367-380): one
  \<^verbatim>\<open>DELETE FROM Payment\<close> for each ticket that the \<^verbatim>\<open>SELECT\<close> of line 363 returned,
  then the four deletions by \<^verbatim>\<open>Event_id\<close>.\<close>

definition cascade_statements :: "tables \<Rightarrow> int \<Rightarrow> statement list" where
  "cascade_statements T event_id =
     map (\<lambda>t. DeletePayment (Ticket_id t))
         (filter (\<lambda>t. Ticket_Event_id t = event_id) (tickets T))
     @ [DeleteTicket event_id, DeleteVolunteers event_id, DeleteSponsor event_id,
        DeleteEvent event_id]"

text \<open>Sending statements one after the other. \<open>fail = Some k\<close> makes the statement with
  index \<open>k\<close> raise \<^verbatim>\<open>Error\<close>: the statements before it have been executed, it and the
  later ones have not. The flag is \<open>True\<close> when all were executed.\<close>

fun run_statements :: "nat option \<Rightarrow> statement list \<Rightarrow> database \<Rightarrow> bool \<times> database" where
  "run_statements fail [] s = (True, s)"
| "run_statements fail (st # sts) s =
     (if fail = Some 0 then (False, s)
      else run_statements (map_option (\<lambda>k. k - 1) fail) sts (cursor_execute st s))"

text \<open>The handler of lines 390-395, after the message on the console and the dialog
  (presentation; they change no state): \<^verbatim>\<open>self.connection.rollback()\<close>, then
  \<^verbatim>\<open>return False\<close>. Nothing in the handler is guarded: with a fault \<open>f_rollback\<close> the
  \<^verbatim>\<open>rollback\<close> (or the dialog before it) raises, the exception leaves
  \<^verbatim>\<open>delete_event\<close>, and the transaction has not been rolled back by this call.\<close>

definition delete_event_handler :: "fault \<Rightarrow> database \<Rightarrow> bool outcome \<times> database" where
  "delete_event_handler f_rollback s =
     (case f_rollback of
        NoFault \<Rightarrow> (Returned False, rollback s)
      | SqlError \<Rightarrow> (Raised, s)
      | Crash \<Rightarrow> (Raised, s))"

text \<open>Lines 350-395. \<open>f_log\<close> is the fault of the logging \<^verbatim>\<open>INSERT\<close>, \<open>f_cursor\<close> that of
  \<^verbatim>\<open>self.connection.cursor\<close>, \<open>F\<close> the faults of the reload and \<open>f_rollback\<close> that of the
  handler's \<^verbatim>\<open>rollback\<close>. \<open>fail = Some k\<close> makes step \<open>k\<close> of the \<^verbatim>\<open>try\<close> block raise
  \<^verbatim>\<open>Error\<close>: step 0 is the \<^verbatim>\<open>SELECT\<close>, the deletions follow, and the step after the
  last deletion is the \<^verbatim>\<open>commit\<close>. The reload is inside the \<^verbatim>\<open>try\<close>, but what it can
  raise is not an \<^verbatim>\<open>Error\<close> and leaves the method.\<close>

definition delete_event ::
  "nat \<Rightarrow> fault \<Rightarrow> fault \<Rightarrow> nat option \<Rightarrow> fault \<Rightarrow> (table_name \<Rightarrow> fault) \<Rightarrow> database \<Rightarrow> int \<Rightarrow> string
     \<Rightarrow> bool outcome \<times> database" where
  "delete_event now f_log f_cursor fail f_rollback F s event_id event_name =
     (let s1 = log_event_deletion now f_log s event_id event_name in
      case f_cursor of
        Crash \<Rightarrow> (Raised, s1)
      | SqlError \<Rightarrow> delete_event_handler f_rollback s1
      | NoFault \<Rightarrow>
          if fail = Some 0 then delete_event_handler f_rollback s1
          else
            (let sts = cascade_statements (visible s1) event_id in
             case run_statements (map_option (\<lambda>k. k - 1) fail) sts s1 of
               (False, s2) \<Rightarrow> delete_event_handler f_rollback s2
             | (True, s2) \<Rightarrow>
                 if fail = Some (Suc (length sts)) then delete_event_handler f_rollback s2
                 else
                   (case refresh_all_data F (commit s2) of
                      (Raised, s3) \<Rightarrow> (Raised, s3)
                    | (Returned u, s3) \<Rightarrow> (Returned True, s3))))"

section \<open>Ticket procedures\<close>

text \<open>\<^verbatim>\<open>UPDATE Ticket SET Status = x WHERE Ticket_id = p\<close>.\<close>

definition set_status :: "string \<Rightarrow> int \<Rightarrow> tables \<Rightarrow> tables" where
  "set_status x ticket_id T =
     T\<lparr>tickets := map (\<lambda>t. if Ticket_id t = ticket_id then t\<lparr>Status := x\<rparr> else t) (tickets T)\<rparr>"

text \<open>\<^verbatim>\<open>INSERT INTO Payment (Ticket_id, Amount, Method, Date) VALUES (p, a, m, CURDATE())\<close>.
  The server supplies the key \<open>new_id\<close> and the date \<open>today\<close>.\<close>

definition insert_payment :: "int \<Rightarrow> nat \<Rightarrow> int \<Rightarrow> int \<Rightarrow> string \<Rightarrow> tables \<Rightarrow> tables" where
  "insert_payment new_id today ticket_id amount payment_method T =
     T\<lparr>payments := payments T @
        [\<lparr>Payment_id = new_id, Payment_Ticket_id = ticket_id, Amount = amount,
          Method = payment_method, Payment_Date = today\<rparr>]\<rparr>"

text \<open>What a method does after its write: \<^verbatim>\<open>self.refresh_all_data()\<close>, then it returns
  \<open>v\<close>. An exception of the reload leaves the method.\<close>

definition refresh_then :: "(table_name \<Rightarrow> fault) \<Rightarrow> 'a \<Rightarrow> database \<Rightarrow> 'a outcome \<times> database" where
  "refresh_then F v s =
     (case refresh_all_data F s of
        (Raised, s') \<Rightarrow> (Raised, s')
      | (Returned u, s') \<Rightarrow> (Returned v, s'))"

subsection \<open>mark_ticket_as_pending\<close>

definition pending_message :: "int \<Rightarrow> string" where
  "pending_message ticket_id = ''Ticket '' @ str ticket_id @ '' status set to Pending.''"

text \<open>The routine \<^verbatim>\<open>SP_MarkTicketAsPending\<close> (lines 261-269): the update and the row
  with the message.\<close>

definition SP_MarkTicketAsPending :: "tables \<Rightarrow> int \<Rightarrow> tables \<times> string" where
  "SP_MarkTicketAsPending T p_ticket_id =
     (set_status ''Pending'' p_ticket_id T, pending_message p_ticket_id)"

text \<open>Lines 678-698. \<open>f_proc\<close> is the fault of the call of the routine, \<open>f_upd\<close> that of
  the \<^verbatim>\<open>UPDATE\<close> of the fallback.\<close>

definition mark_ticket_as_pending ::
  "fault \<Rightarrow> fault \<Rightarrow> (table_name \<Rightarrow> fault) \<Rightarrow> database \<Rightarrow> int \<Rightarrow> string outcome \<times> database" where
  "mark_ticket_as_pending f_proc f_upd F s ticket_id =
     (case f_proc of
        Crash \<Rightarrow> (Raised, s)
      | NoFault \<Rightarrow>
          (case SP_MarkTicketAsPending (visible s) ticket_id of
             (T', message) \<Rightarrow> refresh_then F message (commit (s\<lparr>pending := Some T'\<rparr>)))
      | SqlError \<Rightarrow>
          (case execute_write f_upd (set_status ''Pending'' ticket_id) s of
             (Raised, s') \<Rightarrow> (Raised, s')
           | (Returned True, s') \<Rightarrow> refresh_then F (pending_message ticket_id) s'
           | (Returned False, s') \<Rightarrow>
               (Returned (''Error: Could not update ticket '' @ str ticket_id), s')))"

subsection \<open>confirm_payment\<close>

definition recorded_message :: "int \<Rightarrow> string" where
  "recorded_message ticket_id = ''Ticket '' @ str ticket_id @ '' confirmed and payment recorded.''"

text \<open>The routine \<^verbatim>\<open>SP_ConfirmPayment\<close> (lines 219-233): the insertion, the update and
  the row with the message, with no test before them.\<close>

definition SP_ConfirmPayment :: "int \<Rightarrow> nat \<Rightarrow> tables \<Rightarrow> int \<Rightarrow> string \<Rightarrow> int \<Rightarrow> tables \<times> string" where
  "SP_ConfirmPayment new_id today T p_ticket_id p_payment_method p_amount =
     (set_status ''Confirmed'' p_ticket_id
        (insert_payment new_id today p_ticket_id p_amount p_payment_method T),
      recorded_message p_ticket_id)"

text \<open>The manual implementation in the \<^verbatim>\<open>except Error\<close> branch (lines 626-653). It reads
  the cached tickets and payments. The results of its \<^verbatim>\<open>execute_query\<close> calls are not looked
  at, so a statement that fails with \<^verbatim>\<open>Error\<close> is skipped.\<close>

definition confirm_payment_manual ::
  "int \<Rightarrow> nat \<Rightarrow> fault \<Rightarrow> fault \<Rightarrow> (table_name \<Rightarrow> fault) \<Rightarrow> database \<Rightarrow> int \<Rightarrow> string \<Rightarrow> int
     \<Rightarrow> string outcome \<times> database" where
  "confirm_payment_manual new_id today f_ins f_upd F s ticket_id payment_method amount =
     (case find (\<lambda>t. Ticket_id t = ticket_id) (tickets (cache s)) of
        None \<Rightarrow> (Returned (''Error: Ticket '' @ str ticket_id @ '' not found''), s)
      | Some ticket \<Rightarrow>
          if Status ticket = ''Cancelled'' then
            (Returned (''Error: Cannot process payment for cancelled ticket '' @ str ticket_id), s)
          else
            (case find (\<lambda>p. Payment_Ticket_id p = ticket_id) (payments (cache s)) of
               Some existing_payment \<Rightarrow>
                 if Status ticket = ''Pending'' then
                   (case execute_write f_upd (set_status ''Confirmed'' ticket_id) s of
                      (Raised, s') \<Rightarrow> (Raised, s')
                    | (Returned b, s') \<Rightarrow>
                        refresh_then F
                          (''Ticket '' @ str ticket_id @ '' confirmed. Payment already on record.'') s')
                 else
                   (Returned (''Error: Payment already exists for ticket '' @ str ticket_id), s)
             | None \<Rightarrow>
                 (case execute_write f_ins
                         (insert_payment new_id today ticket_id amount payment_method) s of
                    (Raised, s') \<Rightarrow> (Raised, s')
                  | (Returned b, s') \<Rightarrow>
                      (case execute_write f_upd (set_status ''Confirmed'' ticket_id) s' of
                         (Raised, s'') \<Rightarrow> (Raised, s'')
                       | (Returned b', s'') \<Rightarrow>
                           refresh_then F (recorded_message ticket_id) s''))))"

text \<open>Lines 608-653. \<open>f_proc\<close> is the fault of the call of \<^verbatim>\<open>SP_ConfirmPayment\<close>:
  without a fault the routine runs and is committed; \<^verbatim>\<open>Error\<close> leads to the manual
  implementation.\<close>

definition confirm_payment ::
  "int \<Rightarrow> nat \<Rightarrow> fault \<Rightarrow> fault \<Rightarrow> fault \<Rightarrow> (table_name \<Rightarrow> fault) \<Rightarrow> database \<Rightarrow> int \<Rightarrow> string \<Rightarrow> int
     \<Rightarrow> string outcome \<times> database" where
  "confirm_payment new_id today f_proc f_ins f_upd F s ticket_id payment_method amount =
     (case f_proc of
        Crash \<Rightarrow> (Raised, s)
      | NoFault \<Rightarrow>
          (case SP_ConfirmPayment new_id today (visible s) ticket_id payment_method amount of
             (T', message) \<Rightarrow> refresh_then F message (commit (s\<lparr>pending := Some T'\<rparr>)))
      | SqlError \<Rightarrow>
          confirm_payment_manual new_id today f_ins f_upd F s ticket_id payment_method amount)"

subsection \<open>Adding a ticket\<close>

text \<open>\<^verbatim>\<open>Database.add_ticket\<close> (lines 398-408).\<close>

definition add_ticket :: "fault \<Rightarrow> (table_name \<Rightarrow> fault) \<Rightarrow> database \<Rightarrow> ticket \<Rightarrow> bool outcome \<times> database" where
  "add_ticket f_ins F s ticket_data =
     (case execute_write f_ins (\<lambda>T. T\<lparr>tickets := tickets T @ [ticket_data]\<rparr>) s of
        (Raised, s') \<Rightarrow> (Raised, s')
      | (Returned True, s') \<Rightarrow> refresh_then F True s'
      | (Returned False, s') \<Rightarrow> (Returned False, s'))"

text \<open>\<^verbatim>\<open>Database.check_ticket_price\<close> (lines 761-765): \<open>False\<close> is the
  \<^verbatim>\<open>ValueError\<close>.\<close>

definition check_ticket_price :: "int \<Rightarrow> bool" where
  "check_ticket_price price = (\<not> price \<le> 0)"

text \<open>What \<^verbatim>\<open>EventManagementApp.add_ticket\<close> (lines 1769-1792) does with the filled-in
  dialog: the message box it shows.\<close>

datatype message_box = ShowError string | ShowInfo string

definition app_add_ticket ::
  "fault \<Rightarrow> fault \<Rightarrow> fault \<Rightarrow> (table_name \<Rightarrow> fault) \<Rightarrow> database \<Rightarrow> ticket
     \<Rightarrow> message_box outcome \<times> database" where
  "app_add_ticket f1 f2 f_ins F s result =
     (if \<not> check_ticket_price (Price result) then
        (Returned (ShowError ''Ticket price must be greater than zero.''), s)
      else
        (let available = get_available_capacity f1 f2 s (Ticket_Event_id result) in
         if available \<le> 0 \<and> Status result = ''Confirmed'' then
           (Returned (ShowError ''Cannot add ticket: Event capacity is full!''), s)
         else
           (case add_ticket f_ins F s result of
              (Raised, s') \<Rightarrow> (Raised, s')
            | (Returned True, s') \<Rightarrow> (Returned (ShowInfo ''Ticket added successfully!''), s')
            | (Returned False, s') \<Rightarrow>
                (Returned (ShowError ''Failed to add ticket to database''), s'))))"

section \<open>Example data\<close>

text \<open>Two venues, three events and five tickets. Event 10 is held at venue 1 of
  capacity 1 and has one confirmed ticket (100, paid), one cancelled ticket (102) and one
  pending ticket with a payment on record (103). Event 11 has a pending ticket (101) and a
  confirmed ticket without payment (104).\<close>

definition example_tables :: tables where
  "example_tables =
     \<lparr>organizers = [\<lparr>Organizer_id = 1, Organizer_Name = ''Ada''\<rparr>],
      venues = [\<lparr>Venue_id = 1, Venue_Name = ''Hall'', Capacity = 1\<rparr>,
                \<lparr>Venue_id = 2, Venue_Name = ''Arena'', Capacity = 5\<rparr>],
      participants = [\<lparr>Participant_id = 1, Participant_Email = ''a@b.c''\<rparr>],
      events = [\<lparr>Event_id = 10, Event_Name = ''Gala'', Event_Venue_id = 1, Event_Organizer_id = 1\<rparr>,
                \<lparr>Event_id = 11, Event_Name = ''Expo'', Event_Venue_id = 2, Event_Organizer_id = 1\<rparr>],
      sponsors = [\<lparr>Sponsor_id = 1, Sponsor_Event_id = 10\<rparr>, \<lparr>Sponsor_id = 2, Sponsor_Event_id = 11\<rparr>],
      volunteers = [\<lparr>Volunteer_id = 1, Volunteer_Event_id = 10\<rparr>],
      tickets =
        [\<lparr>Ticket_id = 100, Ticket_Event_id = 10, Ticket_Participant_id = 1,
          Status = ''Confirmed'', Price = 5\<rparr>,
         \<lparr>Ticket_id = 101, Ticket_Event_id = 11, Ticket_Participant_id = 1,
          Status = ''Pending'', Price = 5\<rparr>,
         \<lparr>Ticket_id = 102, Ticket_Event_id = 10, Ticket_Participant_id = 1,
          Status = ''Cancelled'', Price = 5\<rparr>,
         \<lparr>Ticket_id = 103, Ticket_Event_id = 10, Ticket_Participant_id = 1,
          Status = ''Pending'', Price = 5\<rparr>,
         \<lparr>Ticket_id = 104, Ticket_Event_id = 11, Ticket_Participant_id = 1,
          Status = ''Confirmed'', Price = 5\<rparr>],
      payments =
        [\<lparr>Payment_id = 1, Payment_Ticket_id = 100, Amount = 5, Method = ''Cash'', Payment_Date = 3\<rparr>,
         \<lparr>Payment_id = 2, Payment_Ticket_id = 103, Amount = 5, Method = ''Card'', Payment_Date = 4\<rparr>],
      users = []\<rparr>"

text \<open>The state right after a reload: the cache equals the storage.\<close>

definition example_state :: database where
  "example_state =
     \<lparr>db = example_tables, db_log = [], pending = None, sent = [], cache = example_tables,
      logs = []\<rparr>"

text \<open>A state whose cache is ahead of the storage: organizer 7 and event 12 are cached
  but are not in the database.\<close>

definition stale_state :: database where
  "stale_state =
     \<lparr>db = example_tables, db_log = [], pending = None, sent = [],
      cache = example_tables
        \<lparr>organizers := organizers example_tables @ [\<lparr>Organizer_id = 7, Organizer_Name = ''Ghost''\<rparr>],
         events := events example_tables @
           [\<lparr>Event_id = 12, Event_Name = ''Fair'', Event_Venue_id = 2, Event_Organizer_id = 7\<rparr>]\<rparr>,
      logs = []\<rparr>"

text \<open>No fault at any table, and an \<^verbatim>\<open>Error\<close> at the fetch of \<^verbatim>\<open>Ticket\<close> only.\<close>

definition no_faults :: "table_name \<Rightarrow> fault" where
  "no_faults t = NoFault"

definition ticket_fetch_fails :: "table_name \<Rightarrow> fault" where
  "ticket_fetch_fails t = (if t = TTicket then SqlError else NoFault)"

section \<open>The reload writes the cache only\<close>

lemma visible_simps:
  "pending s = None \<Longrightarrow> visible s = db s"
  "visible (s\<lparr>pending := Some W\<rparr>) = W"
  "visible (s\<lparr>cache := c\<rparr>) = visible s"
  "visible (s\<lparr>logs := l\<rparr>) = visible s"
  "visible (s\<lparr>db_log := g\<rparr>) = visible s"
  "visible (s\<lparr>sent := t\<rparr>) = visible s"
  by (simp_all add: visible_def split: option.splits)

lemma commit_fields:
  "db (commit s) = visible s" "pending (commit s) = None" "visible (commit s) = visible s"
  "db_log (commit s) = db_log s" "cache (commit s) = cache s" "logs (commit s) = logs s"
  "sent (commit s) = sent s"
  by (simp_all add: commit_def visible_def split: option.splits)


lemma run_assignments_storage:
  assumes "\<And>a s s'. a \<in> set as \<Longrightarrow> a s = Returned s' \<Longrightarrow> same_storage s' s"
  shows "same_storage (snd (run_assignments as s)) s"
  using assms
proof (induction as arbitrary: s)
  case Nil
  then show ?case by (simp add: same_storage_def)
next
  case (Cons a as)
  show ?case
  proof (cases "a s")
    case Raised
    then show ?thesis by (simp add: same_storage_def)
  next
    case (Returned s')
    have "same_storage s' s" using Cons.prems[of a s s'] Returned by simp
    moreover have "same_storage (snd (run_assignments as s')) s'"
      by (rule Cons.IH) (use Cons.prems in auto)
    ultimately show ?thesis using Returned by (simp add: same_storage_def)
  qed
qed

lemma assign_storage: "assign f rows put s = Returned s' \<Longrightarrow> same_storage s' s"
  by (cases f) (auto simp: assign_def same_storage_def)

lemma assign_users_storage: "assign_users f s = Returned s' \<Longrightarrow> same_storage s' s"
  by (cases f) (auto simp: assign_users_def same_storage_def)

lemma assign_logs_storage: "assign_logs f s = Returned s' \<Longrightarrow> same_storage s' s"
  by (cases f) (auto simp: assign_logs_def same_storage_def split: list.splits)

lemma refresh_all_data_storage: "same_storage (snd (refresh_all_data F s)) s"
  unfolding refresh_all_data_def
  by (rule run_assignments_storage)
     (auto dest: assign_storage assign_users_storage assign_logs_storage)

lemma refresh_all_data_db:
  "db (snd (refresh_all_data F s)) = db s"
  "db_log (snd (refresh_all_data F s)) = db_log s"
  "pending (snd (refresh_all_data F s)) = pending s"
  "sent (snd (refresh_all_data F s)) = sent s"
  "visible (snd (refresh_all_data F s)) = visible s"
  using refresh_all_data_storage[of F s]
  by (simp_all add: same_storage_def visible_def split: option.splits)

lemma refresh_then_db:
  "db (snd (refresh_then F v s)) = db s"
  "db_log (snd (refresh_then F v s)) = db_log s"
  "pending (snd (refresh_then F v s)) = pending s"
  "sent (snd (refresh_then F v s)) = sent s"
  "visible (snd (refresh_then F v s)) = visible s"
  using refresh_all_data_db[of F s]
  by (auto simp: refresh_then_def split: prod.splits outcome.splits)

section \<open>Deleting an event\<close>

lemma cursor_execute_fields:
  "db (cursor_execute st s) = db s" "db_log (cursor_execute st s) = db_log s"
  "cache (cursor_execute st s) = cache s" "logs (cursor_execute st s) = logs s"
  "sent (cursor_execute st s) = sent s @ [st]"
  "visible (cursor_execute st s) = execute st (visible s)"
  "pending (cursor_execute st s) = Some (execute st (visible s))"
  by (simp_all add: cursor_execute_def visible_def)

lemma fold_cursor_execute_fields:
  "db (fold cursor_execute sts s) = db s" "db_log (fold cursor_execute sts s) = db_log s"
  "cache (fold cursor_execute sts s) = cache s" "logs (fold cursor_execute sts s) = logs s"
  "sent (fold cursor_execute sts s) = sent s @ sts"
  "visible (fold cursor_execute sts s) = fold execute sts (visible s)"
  by (induction sts arbitrary: s; simp add: cursor_execute_fields)+

text \<open>What \<open>run_statements\<close> leaves: the statements before the failing one have been
  executed, in their order.\<close>

lemma run_statements_prefix:
  "run_statements fail sts s =
     (case fail of
        None \<Rightarrow> (True, fold cursor_execute sts s)
      | Some k \<Rightarrow> (\<not> k < length sts, fold cursor_execute (take k sts) s))"
proof (induction sts arbitrary: fail s)
  case Nil
  then show ?case by (simp split: option.splits)
next
  case (Cons st sts)
  show ?case
  proof (cases fail)
    case None
    then show ?thesis using Cons.IH[of None] by simp
  next
    case (Some k)
    then show ?thesis using Cons.IH[of "Some (k - 1)"] by (cases k) auto
  qed
qed

lemma run_statements_fields:
  "db (snd (run_statements fail sts s)) = db s"
  "db_log (snd (run_statements fail sts s)) = db_log s"
  "cache (snd (run_statements fail sts s)) = cache s"
  "logs (snd (run_statements fail sts s)) = logs s"
  by (simp_all add: run_statements_prefix fold_cursor_execute_fields split: option.splits)

lemma fold_DeletePayment:
  "fold execute (map (\<lambda>t. DeletePayment (Ticket_id t)) ts) T =
     T\<lparr>payments := filter (\<lambda>p. Payment_Ticket_id p \<notin> Ticket_id ` set ts) (payments T)\<rparr>"
proof (induction ts arbitrary: T)
  case Nil
  then show ?case by simp
next
  case (Cons t ts)
  show ?case by (simp add: Cons.IH)
qed

lemma fold_cascade_statements:
  "fold execute (cascade_statements T event_id) T =
     T\<lparr>payments := filter (\<lambda>p. Payment_Ticket_id p \<notin>
            Ticket_id ` {t \<in> set (tickets T). Ticket_Event_id t = event_id}) (payments T),
       tickets := filter (\<lambda>t. Ticket_Event_id t \<noteq> event_id) (tickets T),
       volunteers := filter (\<lambda>v. Volunteer_Event_id v \<noteq> event_id) (volunteers T),
       sponsors := filter (\<lambda>x. Sponsor_Event_id x \<noteq> event_id) (sponsors T),
       events := filter (\<lambda>e. Event_id e \<noteq> event_id) (events T)\<rparr>"
  by (simp add: cascade_statements_def fold_DeletePayment)

lemma log_event_deletion_fields:
  "cache (log_event_deletion now f s i n) = cache s"
  "sent (log_event_deletion now f s i n) = sent s"
  "visible (log_event_deletion now f s i n) = visible s"
  "logs (log_event_deletion now f s i n) = logs s @ [\<lparr>Timestamp = now, Log_Message = deletion_message i n\<rparr>]"
  "db_log (log_event_deletion now f s i n) =
      (if f = NoFault then db_log s @ [\<lparr>Timestamp = now, Log_Message = deletion_message i n\<rparr>] else db_log s)"
  "pending s = None \<Longrightarrow> db (log_event_deletion now f s i n) = db s"
  "pending s = None \<Longrightarrow> pending (log_event_deletion now f s i n) = None"
  by (cases f; simp add: log_event_deletion_def insert_log_def Let_def commit_def visible_def
        split: option.splits)+

lemma run_assignments_returns:
  assumes "\<And>a s. a \<in> set as \<Longrightarrow> a s \<noteq> Raised"
  shows "fst (run_assignments as s) = Returned ()"
  using assms
proof (induction as arbitrary: s)
  case Nil
  then show ?case by simp
next
  case (Cons a as)
  then show ?case by (cases "a s") auto
qed

lemma assign_returns: "f \<noteq> Crash \<Longrightarrow> assign f rows put s \<noteq> Raised"
  by (cases f) (auto simp: assign_def)

lemma assign_users_returns: "assign_users f s \<noteq> Raised"
  by (cases f) (auto simp: assign_users_def)

lemma assign_logs_returns: "assign_logs f s \<noteq> Raised"
  by (cases f) (auto simp: assign_logs_def split: list.splits)

lemma refresh_all_data_returns:
  assumes "\<forall>t. F t \<noteq> Crash"
  shows "fst (refresh_all_data F s) = Returned ()"
  unfolding refresh_all_data_def
  by (rule run_assignments_returns)
     (use assms in \<open>auto simp: assign_returns assign_users_returns assign_logs_returns\<close>)

lemma refresh_then_returns:
  assumes "\<forall>t. F t \<noteq> Crash"
  shows "fst (refresh_then F v s) = Returned v"
  using refresh_all_data_returns[OF assms, of s]
  by (auto simp: refresh_then_def split: prod.splits outcome.splits)

text \<open>With no fault in the cascade and none that leaves the reload, the method returns
  \<^verbatim>\<open>True\<close>.\<close>

lemma delete_event_succeeds:
  assumes "f_cursor = NoFault" "fail = None" "\<forall>t. F t \<noteq> Crash"
  shows "fst (delete_event now f_log f_cursor fail f_rollback F s event_id event_name) = Returned True"
proof -
  let ?s1 = "log_event_deletion now f_log s event_id event_name"
  let ?sts = "cascade_statements (visible ?s1) event_id"
  have "run_statements None ?sts ?s1 = (True, fold cursor_execute ?sts ?s1)"
    by (simp add: run_statements_prefix)
  then show ?thesis
    using assms(1,2) refresh_all_data_returns[OF assms(3), of "commit (fold cursor_execute ?sts ?s1)"]
    by (auto simp: delete_event_def Let_def split: prod.splits outcome.splits)
qed

text \<open>The successful run: every statement executed, then the commit, then the reload.\<close>

lemma delete_event_True:
  assumes "fst (delete_event now f_log f_cursor fail f_rollback F s event_id event_name) = Returned True"
  shows "db (snd (delete_event now f_log f_cursor fail f_rollback F s event_id event_name)) =
           fold execute (cascade_statements (visible s) event_id) (visible s)"
    and "sent (snd (delete_event now f_log f_cursor fail f_rollback F s event_id event_name)) =
           sent s @ cascade_statements (visible s) event_id"
    and "pending (snd (delete_event now f_log f_cursor fail f_rollback F s event_id event_name)) = None"
proof -
  let ?s1 = "log_event_deletion now f_log s event_id event_name"
  let ?sts = "cascade_statements (visible s) event_id"
  let ?r = "delete_event now f_log f_cursor fail f_rollback F s event_id event_name"
  have hT: "\<And>x. fst (delete_event_handler f_rollback x) \<noteq> Returned True"
    by (cases f_rollback) (simp_all add: delete_event_handler_def)
  from assms hT have f: "f_cursor = NoFault" and f0: "fail \<noteq> Some 0"
    by (auto simp: delete_event_def Let_def split: fault.splits if_splits)
  from assms hT f f0 have run: "fst (run_statements (map_option (\<lambda>k. k - 1) fail) ?sts ?s1)"
    and fc: "fail \<noteq> Some (Suc (length ?sts))"
    by (auto simp: delete_event_def Let_def log_event_deletion_fields
        split: prod.splits bool.splits if_splits)
  from run have s2: "run_statements (map_option (\<lambda>k. k - 1) fail) ?sts ?s1 =
      (True, fold cursor_execute ?sts ?s1)"
    by (cases fail) (auto simp: run_statements_prefix)
  have r: "snd ?r = snd (refresh_all_data F (commit (fold cursor_execute ?sts ?s1)))"
    using f f0 fc s2
    by (auto simp: delete_event_def Let_def log_event_deletion_fields
        split: prod.splits outcome.splits)
  show "db (snd ?r) = fold execute ?sts (visible s)"
    by (simp add: r refresh_all_data_db commit_fields fold_cursor_execute_fields
        log_event_deletion_fields)
  show "sent (snd ?r) = sent s @ ?sts"
    by (simp add: r refresh_all_data_db commit_fields fold_cursor_execute_fields
        log_event_deletion_fields)
  show "pending (snd ?r) = None"
    by (simp add: r refresh_all_data_db commit_fields)
qed

text \<open>
  \<^bold>\<open>Claim C1\<close> (cascade completeness and order). When \<^verbatim>\<open>delete_event(event_id, ...)\<close>
  returns \<^verbatim>\<open>True\<close>, the statements that the server executed for this call are, in this
  order, the deletions of the payments of each ticket of the event, then of its tickets,
  its volunteers, its sponsors and the event itself; they are committed (no transaction is
  left open), and the committed tables hold no ticket, volunteer, sponsor or event row with
  that event id and no payment of a ticket that belonged to the event. \<open>T\<close> is what the
  connection saw before the call, the committed tables when no transaction was open.
\<close>

theorem delete_event_cascade_complete:
  assumes "fst (delete_event now f_log f_cursor fail f_rollback F s event_id event_name) = Returned True"
  shows "(let T = visible s;
              s' = snd (delete_event now f_log f_cursor fail f_rollback F s event_id event_name) in
     sent s' = sent s @
       map (\<lambda>t. DeletePayment (Ticket_id t)) (filter (\<lambda>t. Ticket_Event_id t = event_id) (tickets T))
       @ [DeleteTicket event_id, DeleteVolunteers event_id, DeleteSponsor event_id, DeleteEvent event_id] \<and>
     pending s' = None \<and>
     (\<forall>t \<in> set (tickets (db s')). Ticket_Event_id t \<noteq> event_id) \<and>
     (\<forall>p \<in> set (payments (db s')). \<forall>t \<in> set (tickets T).
         Ticket_Event_id t = event_id \<longrightarrow> Payment_Ticket_id p \<noteq> Ticket_id t) \<and>
     (\<forall>v \<in> set (volunteers (db s')). Volunteer_Event_id v \<noteq> event_id) \<and>
     (\<forall>x \<in> set (sponsors (db s')). Sponsor_Event_id x \<noteq> event_id) \<and>
     (\<forall>e \<in> set (events (db s')). Event_id e \<noteq> event_id) \<and>
     organizers (db s') = organizers T \<and> venues (db s') = venues T \<and>
     participants (db s') = participants T \<and> users (db s') = users T)"
proof -
  note d = delete_event_True[OF assms]
  show ?thesis
    unfolding Let_def d fold_cascade_statements
    by (auto simp: cascade_statements_def)
qed

theorem delete_event_cascade_complete_witness:
  "fst (delete_event 7 NoFault NoFault None NoFault no_faults example_state 10 ''Gala'') = Returned True \<and>
   sent (snd (delete_event 7 NoFault NoFault None NoFault no_faults example_state 10 ''Gala'')) =
     [DeletePayment 100, DeletePayment 102, DeletePayment 103,
      DeleteTicket 10, DeleteVolunteers 10, DeleteSponsor 10, DeleteEvent 10] \<and>
   pending (snd (delete_event 7 NoFault NoFault None NoFault no_faults example_state 10 ''Gala'')) = None \<and>
   map Ticket_id (tickets (db (snd (delete_event 7 NoFault NoFault None NoFault no_faults example_state 10 ''Gala'')))) = [101, 104] \<and>
   map Payment_id (payments (db (snd (delete_event 7 NoFault NoFault None NoFault no_faults example_state 10 ''Gala'')))) = [] \<and>
   map Volunteer_id (volunteers (db (snd (delete_event 7 NoFault NoFault None NoFault no_faults example_state 10 ''Gala'')))) = [] \<and>
   map Sponsor_id (sponsors (db (snd (delete_event 7 NoFault NoFault None NoFault no_faults example_state 10 ''Gala'')))) = [2] \<and>
   map Event_id (events (db (snd (delete_event 7 NoFault NoFault None NoFault no_faults example_state 10 ''Gala'')))) = [11] \<and>
   (let T = visible example_state;
        s' = snd (delete_event 7 NoFault NoFault None NoFault no_faults example_state 10 ''Gala'') in
     sent s' = sent example_state @
       map (\<lambda>t. DeletePayment (Ticket_id t)) (filter (\<lambda>t. Ticket_Event_id t = 10) (tickets T))
       @ [DeleteTicket 10, DeleteVolunteers 10, DeleteSponsor 10, DeleteEvent 10] \<and>
     pending s' = None \<and>
     (\<forall>t \<in> set (tickets (db s')). Ticket_Event_id t \<noteq> 10) \<and>
     (\<forall>p \<in> set (payments (db s')). \<forall>t \<in> set (tickets T).
         Ticket_Event_id t = 10 \<longrightarrow> Payment_Ticket_id p \<noteq> Ticket_id t) \<and>
     (\<forall>v \<in> set (volunteers (db s')). Volunteer_Event_id v \<noteq> 10) \<and>
     (\<forall>x \<in> set (sponsors (db s')). Sponsor_Event_id x \<noteq> 10) \<and>
     (\<forall>e \<in> set (events (db s')). Event_id e \<noteq> 10) \<and>
     organizers (db s') = organizers T \<and> venues (db s') = venues T \<and>
     participants (db s') = participants T \<and> users (db s') = users T)"
proof -
  have h: "fst (delete_event 7 NoFault NoFault None NoFault no_faults example_state 10 ''Gala'') = Returned True"
    by (rule delete_event_succeeds) (simp_all add: no_faults_def)
  note c = delete_event_cascade_complete[OF h]
  note d = delete_event_True[OF h]
  have st: "sent (snd (delete_event 7 NoFault NoFault None NoFault no_faults example_state 10 ''Gala'')) =
     [DeletePayment 100, DeletePayment 102, DeletePayment 103,
      DeleteTicket 10, DeleteVolunteers 10, DeleteSponsor 10, DeleteEvent 10]"
    unfolding d by code_simp
  have p: "pending (snd (delete_event 7 NoFault NoFault None NoFault no_faults example_state 10 ''Gala'')) = None"
    by (rule d)
  have t: "map Ticket_id (tickets (db (snd (delete_event 7 NoFault NoFault None NoFault no_faults example_state 10 ''Gala'')))) = [101, 104]"
    unfolding d by code_simp
  have py: "map Payment_id (payments (db (snd (delete_event 7 NoFault NoFault None NoFault no_faults example_state 10 ''Gala'')))) = []"
    unfolding d by code_simp
  have v: "map Volunteer_id (volunteers (db (snd (delete_event 7 NoFault NoFault None NoFault no_faults example_state 10 ''Gala'')))) = []"
    unfolding d by code_simp
  have sp: "map Sponsor_id (sponsors (db (snd (delete_event 7 NoFault NoFault None NoFault no_faults example_state 10 ''Gala'')))) = [2]"
    unfolding d by code_simp
  have e: "map Event_id (events (db (snd (delete_event 7 NoFault NoFault None NoFault no_faults example_state 10 ''Gala'')))) = [11]"
    unfolding d by code_simp
  from h st p t py v sp e c show ?thesis by (intro conjI)
qed



section \<open>mark_ticket_as_pending has no precondition\<close>

lemma execute_write_NoFault_fields:
  "fst (execute_write NoFault upd s) = Returned True"
  "db (snd (execute_write NoFault upd s)) = upd (visible s)"
  "pending (snd (execute_write NoFault upd s)) = None"
  "visible (snd (execute_write NoFault upd s)) = upd (visible s)"
  "cache (snd (execute_write NoFault upd s)) = cache s"
  "logs (snd (execute_write NoFault upd s)) = logs s"
  "db_log (snd (execute_write NoFault upd s)) = db_log s"
  "sent (snd (execute_write NoFault upd s)) = sent s"
  by (simp_all add: commit_def visible_def)

lemma str_examples:
  "str 999 = ''999''" "str 100 = ''100''" "str 102 = ''102''" "str 103 = ''103''"
  "str 104 = ''104''" "str 7 = ''7''"
  by code_simp+

text \<open>
  C10. \<^verbatim>\<open>mark_ticket_as_pending\<close> looks neither for the ticket nor at its status. Whenever
  the update executes (the routine \<^verbatim>\<open>SP_MarkTicketAsPending\<close> runs, or it is missing and
  the \<^verbatim>\<open>UPDATE\<close> of the fallback runs) and the reload raises nothing, the method returns
  \<^verbatim>\<open>Ticket {id} status set to Pending.\<close> for every ticket id, and the committed tables are
  those the connection saw with the status of every ticket of that id set to
  \<^verbatim>\<open>Pending\<close>: nothing changes when there is no such ticket, and a confirmed or
  cancelled ticket becomes pending.
\<close>

theorem mark_ticket_as_pending_unconditional:
  assumes "f_proc = NoFault \<or> (f_proc = SqlError \<and> f_upd = NoFault)"
    and "\<forall>t. F t \<noteq> Crash"
  shows "fst (mark_ticket_as_pending f_proc f_upd F s ticket_id) =
           Returned (''Ticket '' @ str ticket_id @ '' status set to Pending.'')
       \<and> db (snd (mark_ticket_as_pending f_proc f_upd F s ticket_id)) =
           (visible s)\<lparr>tickets :=
              map (\<lambda>t. if Ticket_id t = ticket_id then t\<lparr>Status := ''Pending''\<rparr> else t)
                  (tickets (visible s))\<rparr>
       \<and> pending (snd (mark_ticket_as_pending f_proc f_upd F s ticket_id)) = None"
proof -
  let ?upd = "set_status ''Pending'' ticket_id"
  let ?m = "pending_message ticket_id"
  have u: "?upd (visible s) = (visible s)\<lparr>tickets :=
              map (\<lambda>t. if Ticket_id t = ticket_id then t\<lparr>Status := ''Pending''\<rparr> else t)
                  (tickets (visible s))\<rparr>"
    by (simp add: set_status_def)
  have m: "?m = ''Ticket '' @ str ticket_id @ '' status set to Pending.''"
    by (simp add: pending_message_def)
  from assms(1) show ?thesis
  proof
    assume f: "f_proc = NoFault"
    have r: "mark_ticket_as_pending f_proc f_upd F s ticket_id =
               refresh_then F ?m (commit (s\<lparr>pending := Some (?upd (visible s))\<rparr>))"
      by (simp add: f mark_ticket_as_pending_def SP_MarkTicketAsPending_def)
    show ?thesis
      unfolding r
      by (simp only: refresh_then_returns[OF assms(2)] refresh_then_db commit_fields
            visible_simps u m)
  next
    assume f: "f_proc = SqlError \<and> f_upd = NoFault"
    have r: "mark_ticket_as_pending f_proc f_upd F s ticket_id =
               refresh_then F ?m (snd (execute_write NoFault ?upd s))"
      by (simp add: f mark_ticket_as_pending_def)
    show ?thesis
      unfolding r
      by (simp only: refresh_then_returns[OF assms(2)] refresh_then_db
            execute_write_NoFault_fields u m)
  qed
qed

theorem mark_ticket_as_pending_unconditional_witness:
  "(\<forall>t. no_faults t \<noteq> Crash)
   \<and> fst (mark_ticket_as_pending NoFault NoFault no_faults example_state 999) =
       Returned ''Ticket 999 status set to Pending.''
   \<and> tickets (db (snd (mark_ticket_as_pending NoFault NoFault no_faults example_state 999))) =
       tickets example_tables
   \<and> fst (mark_ticket_as_pending SqlError NoFault no_faults example_state 100) =
       Returned ''Ticket 100 status set to Pending.''
   \<and> map (\<lambda>t. (Ticket_id t, Status t))
       (tickets (db (snd (mark_ticket_as_pending SqlError NoFault no_faults example_state 100)))) =
       [(100, ''Pending''), (101, ''Pending''), (102, ''Cancelled''), (103, ''Pending''),
        (104, ''Confirmed'')]
   \<and> fst (mark_ticket_as_pending NoFault NoFault no_faults example_state 102) =
       Returned ''Ticket 102 status set to Pending.''
   \<and> map (\<lambda>t. (Ticket_id t, Status t))
       (tickets (db (snd (mark_ticket_as_pending NoFault NoFault no_faults example_state 102)))) =
       [(100, ''Confirmed''), (101, ''Pending''), (102, ''Pending''), (103, ''Pending''),
        (104, ''Confirmed'')]"
proof -
  have F: "\<forall>t. no_faults t \<noteq> Crash" by (simp add: no_faults_def)
  have v: "visible example_state = example_tables" by code_simp
  note a = mark_ticket_as_pending_unconditional[OF _ F, of NoFault NoFault example_state 999]
  note b = mark_ticket_as_pending_unconditional[OF _ F, of SqlError NoFault example_state 100]
  note c = mark_ticket_as_pending_unconditional[OF _ F, of NoFault NoFault example_state 102]
  have a1: "fst (mark_ticket_as_pending NoFault NoFault no_faults example_state 999) =
       Returned ''Ticket 999 status set to Pending.''"
    using a by (simp add: str_examples)
  have a2: "tickets (db (snd (mark_ticket_as_pending NoFault NoFault no_faults example_state 999))) =
       tickets example_tables"
    using a by (simp add: v example_tables_def)
  have b1: "fst (mark_ticket_as_pending SqlError NoFault no_faults example_state 100) =
       Returned ''Ticket 100 status set to Pending.''"
    using b by (simp add: str_examples)
  have b2: "map (\<lambda>t. (Ticket_id t, Status t))
       (tickets (db (snd (mark_ticket_as_pending SqlError NoFault no_faults example_state 100)))) =
       [(100, ''Pending''), (101, ''Pending''), (102, ''Cancelled''), (103, ''Pending''),
        (104, ''Confirmed'')]"
    using b by (simp add: v example_tables_def)
  have c1: "fst (mark_ticket_as_pending NoFault NoFault no_faults example_state 102) =
       Returned ''Ticket 102 status set to Pending.''"
    using c by (simp add: str_examples)
  have c2: "map (\<lambda>t. (Ticket_id t, Status t))
       (tickets (db (snd (mark_ticket_as_pending NoFault NoFault no_faults example_state 102)))) =
       [(100, ''Confirmed''), (101, ''Pending''), (102, ''Pending''), (103, ''Pending''),
        (104, ''Confirmed'')]"
    using c by (simp add: v example_tables_def)
  from F a1 a2 b1 b2 c1 c2 show ?thesis by (intro conjI)
qed

section \<open>When the tiered queries reach the cache\<close>

lemma visible_example_state: "visible example_state = example_tables"
  by (simp add: visible_def example_state_def)

lemma visible_stale_state: "visible stale_state = example_tables"
  by (simp add: visible_def stale_state_def)

text \<open>
  C8, the claim as the specification has it, on \<open>stale_state\<close>, where the cache holds
  organizer 7 and event 12 and the server holds neither. Both server tiers execute:
  \<^verbatim>\<open>FN_GetOrganizerName(7)\<close> answers the row with \<^verbatim>\<open>NULL\<close> and the direct query no row,
  and \<^verbatim>\<open>get_organizer_name(7)\<close> returns the cached name instead of reporting that there is
  no such organizer; \<^verbatim>\<open>FN_GetAvailableCapacity(12)\<close> answers \<^verbatim>\<open>NULL\<close> and the direct
  query no row, and \<^verbatim>\<open>get_available_capacity(12)\<close> returns the capacity computed from the
  cache.
\<close>

theorem tier3_after_not_found_counterexample:
  "execute_fetch NoFault (select_function (FN_GetOrganizerName (visible stale_state) 7)) =
     Returned [None]
   \<and> execute_fetch NoFault (Some (map Organizer_Name
        (filter (\<lambda>r. Organizer_id r = 7) (organizers (visible stale_state))))) = Returned []
   \<and> get_organizer_name NoFault NoFault stale_state 7 = ''Ghost''
   \<and> execute_fetch NoFault (select_function (FN_GetAvailableCapacity (visible stale_state) 12)) =
     Returned [None]
   \<and> execute_fetch NoFault (Some (capacity_query (visible stale_state) 12)) = Returned []
   \<and> get_available_capacity NoFault NoFault stale_state 12 = 5"
proof -
  have 1: "execute_fetch NoFault (select_function (FN_GetOrganizerName (visible stale_state) 7)) =
     Returned [None]"
    unfolding visible_stale_state by code_simp
  have 2: "execute_fetch NoFault (Some (map Organizer_Name
        (filter (\<lambda>r. Organizer_id r = 7) (organizers (visible stale_state))))) = Returned []"
    unfolding visible_stale_state by code_simp
  have 3: "get_organizer_name NoFault NoFault stale_state 7 = ''Ghost''"
    by code_simp
  have 4: "execute_fetch NoFault (select_function (FN_GetAvailableCapacity (visible stale_state) 12)) =
     Returned [None]"
    unfolding visible_stale_state by code_simp
  have 5: "execute_fetch NoFault (Some (capacity_query (visible stale_state) 12)) = Returned []"
    unfolding visible_stale_state by code_simp
  have 6: "get_available_capacity NoFault NoFault stale_state 12 = 5"
    by code_simp
  from 1 2 3 4 5 6 show ?thesis by (intro conjI)
qed

text \<open>
  C8, amended. In \<^verbatim>\<open>get_organizer_name\<close> and \<^verbatim>\<open>get_available_capacity\<close> an answer
  "not found" of the server tiers is not final. When the server has no organizer of the
  given id, the name is the one computed from the cache, whatever happens to the two
  queries (also when both execute); the same holds for the capacity when the server has no
  event of the given id. What is final is a result that is there: when the routine of
  tier 1 executes and the server holds exactly one organizer of that id, with a non-empty
  name, that name is returned whatever the cache holds; when it holds exactly one event of
  that id and exactly one venue for it, the capacity of that venue minus the number of the
  event's confirmed tickets on the server is returned.
\<close>

theorem tiered_query_fall_through:
  "((\<forall>r \<in> set (organizers (visible s)). Organizer_id r \<noteq> oid) \<longrightarrow>
      get_organizer_name f1 f2 s oid =
        (case find (\<lambda>r. Organizer_id r = oid) (organizers (cache s)) of
           None \<Rightarrow> ''Unknown'' | Some r \<Rightarrow> Organizer_Name r))
   \<and> ((\<forall>e \<in> set (events (visible s)). Event_id e \<noteq> eid) \<longrightarrow>
      get_available_capacity f1 f2 s eid = capacity_cached (cache s) eid)
   \<and> (filter (\<lambda>r. Organizer_id r = oid') (organizers (visible s)) = [r'] \<and>
        Organizer_Name r' \<noteq> [] \<longrightarrow>
      get_organizer_name NoFault f2 s oid' = Organizer_Name r')
   \<and> (filter (\<lambda>e. Event_id e = eid') (events (visible s)) = [e'] \<and>
        filter (\<lambda>v. Event_Venue_id e' = Venue_id v) (venues (visible s)) = [v'] \<longrightarrow>
      get_available_capacity NoFault f2 s eid' =
        Capacity v' - int (length (filter (\<lambda>t. Ticket_Event_id t = eid' \<and> Status t = ''Confirmed'')
                                    (tickets (visible s)))))"
proof (intro conjI impI)
  assume a: "\<forall>r \<in> set (organizers (visible s)). Organizer_id r \<noteq> oid"
  then have e: "filter (\<lambda>r. Organizer_id r = oid) (organizers (visible s)) = []"
    by (simp add: filter_empty_conv)
  have 1: "name_tier1 f1 (visible s) oid = None"
    by (cases f1) (simp_all add: name_tier1_def FN_GetOrganizerName_def e select_function_def)
  have 2: "name_tier2 f2 (visible s) oid = None"
    by (cases f2) (simp_all add: name_tier2_def e)
  show "get_organizer_name f1 f2 s oid =
        (case find (\<lambda>r. Organizer_id r = oid) (organizers (cache s)) of
           None \<Rightarrow> ''Unknown'' | Some r \<Rightarrow> Organizer_Name r)"
    by (simp add: get_organizer_name_def 1 2 name_cached_def)
next
  assume a: "\<forall>e \<in> set (events (visible s)). Event_id e \<noteq> eid"
  then have e: "filter (\<lambda>e. Event_id e = eid) (events (visible s)) = []"
    by (simp add: filter_empty_conv)
  have 1: "capacity_tier1 f1 (visible s) eid = None"
    by (cases f1) (simp_all add: capacity_tier1_def FN_GetAvailableCapacity_def e select_function_def)
  have 2: "capacity_tier2 f2 (visible s) eid = None"
    by (cases f2) (simp_all add: capacity_tier2_def capacity_query_def e)
  show "get_available_capacity f1 f2 s eid = capacity_cached (cache s) eid"
    by (simp add: get_available_capacity_def 1 2)
next
  assume a: "filter (\<lambda>r. Organizer_id r = oid') (organizers (visible s)) = [r'] \<and>
        Organizer_Name r' \<noteq> []"
  then have "name_tier1 NoFault (visible s) oid' = Some (Organizer_Name r')"
    by (simp add: name_tier1_def FN_GetOrganizerName_def select_function_def)
  then show "get_organizer_name NoFault f2 s oid' = Organizer_Name r'"
    by (simp add: get_organizer_name_def)
next
  assume a: "filter (\<lambda>e. Event_id e = eid') (events (visible s)) = [e'] \<and>
        filter (\<lambda>v. Event_Venue_id e' = Venue_id v) (venues (visible s)) = [v']"
  then have "capacity_tier1 NoFault (visible s) eid' =
      Some (Capacity v' - confirmed_tickets (tickets (visible s)) eid')"
    by (simp add: capacity_tier1_def FN_GetAvailableCapacity_def select_function_def)
  then show "get_available_capacity NoFault f2 s eid' =
        Capacity v' - int (length (filter (\<lambda>t. Ticket_Event_id t = eid' \<and> Status t = ''Confirmed'')
                                    (tickets (visible s))))"
    by (simp add: get_available_capacity_def confirmed_tickets_def)
qed

theorem tiered_query_fall_through_witness:
  "get_organizer_name NoFault NoFault stale_state 7 = ''Ghost''
   \<and> get_available_capacity NoFault NoFault stale_state 12 = 5
   \<and> capacity_cached (cache stale_state) 12 = 5
   \<and> get_organizer_name NoFault Crash stale_state 1 = ''Ada''
   \<and> get_available_capacity NoFault Crash stale_state 11 = 4"
proof -
  note t = tiered_query_fall_through[of stale_state 7 NoFault NoFault 12 1
      "\<lparr>Organizer_id = 1, Organizer_Name = ''Ada''\<rparr>" 11
      "\<lparr>Event_id = 11, Event_Name = ''Expo'', Event_Venue_id = 2, Event_Organizer_id = 1\<rparr>"
      "\<lparr>Venue_id = 2, Venue_Name = ''Arena'', Capacity = 5\<rparr>"]
  have c: "cache stale_state = example_tables
        \<lparr>organizers := organizers example_tables @ [\<lparr>Organizer_id = 7, Organizer_Name = ''Ghost''\<rparr>],
         events := events example_tables @
           [\<lparr>Event_id = 12, Event_Name = ''Fair'', Event_Venue_id = 2, Event_Organizer_id = 7\<rparr>]\<rparr>"
    by (simp add: stale_state_def)
  have 1: "get_organizer_name NoFault NoFault stale_state 7 = ''Ghost''"
    using t by (simp add: visible_stale_state c example_tables_def)
  have 3: "capacity_cached (cache stale_state) 12 = 5"
    by code_simp
  have 2: "get_available_capacity NoFault NoFault stale_state 12 = 5"
    using t 3 by (simp add: visible_stale_state example_tables_def)
  have 4: "get_organizer_name NoFault Crash stale_state 1 = ''Ada''"
    using tiered_query_fall_through[of stale_state 7 NoFault Crash 12 1
      "\<lparr>Organizer_id = 1, Organizer_Name = ''Ada''\<rparr>" 11
      "\<lparr>Event_id = 11, Event_Name = ''Expo'', Event_Venue_id = 2, Event_Organizer_id = 1\<rparr>"
      "\<lparr>Venue_id = 2, Venue_Name = ''Arena'', Capacity = 5\<rparr>"]
    by (simp add: visible_stale_state example_tables_def)
  have 5: "get_available_capacity NoFault Crash stale_state 11 = 4"
    using tiered_query_fall_through[of stale_state 7 NoFault Crash 12 1
      "\<lparr>Organizer_id = 1, Organizer_Name = ''Ada''\<rparr>" 11
      "\<lparr>Event_id = 11, Event_Name = ''Expo'', Event_Venue_id = 2, Event_Organizer_id = 1\<rparr>"
      "\<lparr>Venue_id = 2, Venue_Name = ''Arena'', Capacity = 5\<rparr>"]
    by (simp add: visible_stale_state example_tables_def)
  from 1 2 3 4 5 show ?thesis by (intro conjI)
qed

section \<open>What the reload does with a failed fetch\<close>

lemma assign_SqlError:
  "f \<noteq> Crash \<Longrightarrow>
     assign f rows put s = Returned (s\<lparr>cache := put (if f = SqlError then [] else rows) (cache s)\<rparr>)"
  by (cases f) (simp_all add: assign_def)

lemma assign_users_SqlError:
  "f \<noteq> Crash \<Longrightarrow>
     assign_users f s =
       Returned (s\<lparr>cache := (cache s)\<lparr>users := (if f = SqlError then [] else users (visible s))\<rparr>\<rparr>)"
  by (cases f) (simp_all add: assign_users_def)

lemma newest_logs_Nil: "take 100 (rev (sort_key k xs)) = [] \<longleftrightarrow> xs = []"
proof -
  have "sort_key k xs = [] \<longleftrightarrow> xs = []"
    using length_sort[of k xs] by (metis length_0_conv)
  then show ?thesis by (simp add: take_eq_Nil)
qed

lemma assign_logs_SqlError:
  "f \<noteq> Crash \<Longrightarrow>
     assign_logs f s =
       Returned (s\<lparr>logs := (if f = NoFault \<and> db_log s \<noteq> []
                              then take 100 (rev (sort_key Timestamp (db_log s))) else logs s)\<rparr>)"
proof (cases "take 100 (rev (sort_key Timestamp (db_log s)))")
  case Nil
  then have "db_log s = []" using newest_logs_Nil[of Timestamp "db_log s"] by simp
  then show ?thesis by (cases f) (simp_all add: assign_logs_def)
next
  case (Cons a list)
  then have "db_log s \<noteq> []" using newest_logs_Nil[of Timestamp "db_log s"] by auto
  then show ?thesis using Cons by (cases f) (simp_all add: assign_logs_def)
qed

lemma refresh_all_data_result:
  assumes "\<forall>t. F t \<noteq> Crash"
  shows "refresh_all_data F s =
     (Returned (),
      s\<lparr>cache := (cache s)
          \<lparr>organizers := if F TOrganizer = SqlError then [] else organizers (visible s),
           venues := if F TVenue = SqlError then [] else venues (visible s),
           participants := if F TParticipants = SqlError then [] else participants (visible s),
           events := if F TEvent = SqlError then [] else events (visible s),
           sponsors := if F TSponsor = SqlError then [] else sponsors (visible s),
           volunteers := if F TVolunteers = SqlError then [] else volunteers (visible s),
           tickets := if F TTicket = SqlError then [] else tickets (visible s),
           payments := if F TPayment = SqlError then [] else payments (visible s),
           users := if F TUsers = SqlError then [] else users (visible s)\<rparr>,
        logs := if F TLog = NoFault \<and> db_log s \<noteq> []
                then take 100 (rev (sort_key Timestamp (db_log s))) else logs s\<rparr>)"
  unfolding refresh_all_data_def
  by (simp only: run_assignments.simps assign_SqlError[OF assms[rule_format]]
        assign_users_SqlError[OF assms[rule_format]] assign_logs_SqlError[OF assms[rule_format]]
        outcome.case visible_simps) simp

text \<open>
  C7, the claim as the specification has it: the fetch of \<^verbatim>\<open>Ticket\<close> fails with
  \<^verbatim>\<open>Error\<close> in a reload of \<open>example_state\<close>, whose cache holds five tickets. The reload
  returns, and the cached tickets are the empty list, although the five tickets are still on
  the server.
\<close>

theorem reload_clears_table_counterexample:
  "ticket_fetch_fails TTicket = SqlError
   \<and> length (tickets (cache example_state)) = 5
   \<and> fst (refresh_all_data ticket_fetch_fails example_state) = Returned ()
   \<and> tickets (cache (snd (refresh_all_data ticket_fetch_fails example_state))) = []
   \<and> length (tickets (db (snd (refresh_all_data ticket_fetch_fails example_state)))) = 5"
proof -
  have F: "\<forall>t. ticket_fetch_fails t \<noteq> Crash" by (simp add: ticket_fetch_fails_def)
  have 1: "ticket_fetch_fails TTicket = SqlError" by (simp add: ticket_fetch_fails_def)
  have 2: "length (tickets (cache example_state)) = 5" by code_simp
  have 3: "fst (refresh_all_data ticket_fetch_fails example_state) = Returned ()"
    by (simp add: refresh_all_data_result[OF F])
  have 4: "tickets (cache (snd (refresh_all_data ticket_fetch_fails example_state))) = []"
    by (simp add: refresh_all_data_result[OF F] 1)
  have 5: "length (tickets (db (snd (refresh_all_data ticket_fetch_fails example_state)))) = 5"
    by (simp add: refresh_all_data_db) code_simp
  from 1 2 3 4 5 show ?thesis by (intro conjI)
qed

text \<open>
  C7, amended. When no exception leaves the reload, it returns and every cached table is
  replaced: by the rows on the server when its fetch executes, and by the empty list when
  its fetch fails with \<^verbatim>\<open>Error\<close> (\<^verbatim>\<open>execute_query\<close> returns \<^verbatim>\<open>[]\<close>, which is
  assigned). Only \<^verbatim>\<open>self.logs\<close> is retained on a failed fetch: it is replaced when the
  fetch of \<^verbatim>\<open>Log\<close> executes and returns at least one row, and is left as it was otherwise.
  The server's data are not touched.
\<close>

theorem refresh_all_data_failed_fetch:
  assumes "\<forall>t. F t \<noteq> Crash"
  shows "fst (refresh_all_data F s) = Returned ()
       \<and> cache (snd (refresh_all_data F s)) =
          \<lparr>organizers = if F TOrganizer = SqlError then [] else organizers (visible s),
           venues = if F TVenue = SqlError then [] else venues (visible s),
           participants = if F TParticipants = SqlError then [] else participants (visible s),
           events = if F TEvent = SqlError then [] else events (visible s),
           sponsors = if F TSponsor = SqlError then [] else sponsors (visible s),
           volunteers = if F TVolunteers = SqlError then [] else volunteers (visible s),
           tickets = if F TTicket = SqlError then [] else tickets (visible s),
           payments = if F TPayment = SqlError then [] else payments (visible s),
           users = if F TUsers = SqlError then [] else users (visible s)\<rparr>
       \<and> logs (snd (refresh_all_data F s)) =
           (if F TLog = NoFault \<and> db_log s \<noteq> []
            then take 100 (rev (sort_key Timestamp (db_log s))) else logs s)
       \<and> db (snd (refresh_all_data F s)) = db s
       \<and> db_log (snd (refresh_all_data F s)) = db_log s
       \<and> pending (snd (refresh_all_data F s)) = pending s"
  by (simp add: refresh_all_data_result[OF assms])

theorem refresh_all_data_failed_fetch_witness:
  "(\<forall>t. ticket_fetch_fails t \<noteq> Crash)
   \<and> fst (refresh_all_data ticket_fetch_fails stale_state) = Returned ()
   \<and> cache (snd (refresh_all_data ticket_fetch_fails stale_state)) = example_tables\<lparr>tickets := []\<rparr>
   \<and> logs (snd (refresh_all_data ticket_fetch_fails stale_state)) = []
   \<and> db (snd (refresh_all_data ticket_fetch_fails stale_state)) = example_tables"
proof -
  have F: "\<forall>t. ticket_fetch_fails t \<noteq> Crash" by (simp add: ticket_fetch_fails_def)
  note t = refresh_all_data_failed_fetch[OF F, of stale_state]
  have d: "db stale_state = example_tables" "logs stale_state = []" "db_log stale_state = []"
    by (simp_all add: stale_state_def)
  have tf: "ticket_fetch_fails TTicket = SqlError" "ticket_fetch_fails TOrganizer = NoFault"
    "ticket_fetch_fails TVenue = NoFault" "ticket_fetch_fails TParticipants = NoFault"
    "ticket_fetch_fails TEvent = NoFault" "ticket_fetch_fails TSponsor = NoFault"
    "ticket_fetch_fails TVolunteers = NoFault" "ticket_fetch_fails TPayment = NoFault"
    "ticket_fetch_fails TUsers = NoFault" "ticket_fetch_fails TLog = NoFault"
    by (simp_all add: ticket_fetch_fails_def)
  have 1: "fst (refresh_all_data ticket_fetch_fails stale_state) = Returned ()"
    using t by simp
  have 2: "cache (snd (refresh_all_data ticket_fetch_fails stale_state)) =
      example_tables\<lparr>tickets := []\<rparr>"
    using t by (simp add: visible_stale_state tf example_tables_def)
  have 3: "logs (snd (refresh_all_data ticket_fetch_fails stale_state)) = []"
    using t by (simp add: d)
  have 4: "db (snd (refresh_all_data ticket_fetch_fails stale_state)) = example_tables"
    using t by (simp add: d)
  from F 1 2 3 4 show ?thesis by (intro conjI)
qed

section \<open>The tiers on tables with unique keys\<close>

lemma filter_key_find:
  assumes "distinct (map k xs)"
  shows "filter (\<lambda>x. k x = a) xs = (case find (\<lambda>x. k x = a) xs of None \<Rightarrow> [] | Some x \<Rightarrow> [x])"
  using assms
proof (induction xs)
  case Nil
  then show ?case by simp
next
  case (Cons x xs)
  show ?case
  proof (cases "k x = a")
    case True
    then have "a \<notin> k ` set xs" using Cons.prems by auto
    then have "filter (\<lambda>x. k x = a) xs = []" by (auto simp: filter_empty_conv)
    then show ?thesis using True by simp
  next
    case False
    then show ?thesis using Cons by simp
  qed
qed

lemma find_key: "find (\<lambda>x. k x = a) xs = Some x \<Longrightarrow> k x = a"
  by (auto simp: find_Some_iff)

text \<open>With unique event and venue ids, the routine, the direct query and the computation
  of tier 3 give the same capacity on the same tables; the first two give nothing where
  the third gives 0 for an unresolved event or venue.\<close>

lemma FN_GetAvailableCapacity_unique:
  assumes "distinct (map Event_id (events T))" "distinct (map Venue_id (venues T))"
  shows "FN_GetAvailableCapacity T eid =
     Some (case find (\<lambda>e. Event_id e = eid) (events T) of
        None \<Rightarrow> None
      | Some e \<Rightarrow>
          (case find (\<lambda>v. Venue_id v = Event_Venue_id e) (venues T) of
             None \<Rightarrow> None
           | Some v \<Rightarrow> Some (Capacity v - confirmed_tickets (tickets T) eid)))"
proof -
  have v: "\<And>e. filter (\<lambda>v. Event_Venue_id e = Venue_id v) (venues T) =
      (case find (\<lambda>v. Venue_id v = Event_Venue_id e) (venues T) of None \<Rightarrow> [] | Some v \<Rightarrow> [v])"
    using filter_key_find[OF assms(2)] by (simp add: eq_commute)
  show ?thesis
    by (simp add: FN_GetAvailableCapacity_def filter_key_find[OF assms(1)] v
        split: option.splits)
qed

lemma capacity_query_unique:
  assumes "distinct (map Event_id (events T))" "distinct (map Venue_id (venues T))"
  shows "capacity_query T eid =
     (case find (\<lambda>e. Event_id e = eid) (events T) of
        None \<Rightarrow> []
      | Some e \<Rightarrow>
          (case find (\<lambda>v. Venue_id v = Event_Venue_id e) (venues T) of
             None \<Rightarrow> []
           | Some v \<Rightarrow> [Capacity v - confirmed_tickets (tickets T) eid]))"
proof -
  have v: "\<And>e. filter (\<lambda>v. Event_Venue_id e = Venue_id v) (venues T) =
      (case find (\<lambda>v. Venue_id v = Event_Venue_id e) (venues T) of None \<Rightarrow> [] | Some v \<Rightarrow> [v])"
    using filter_key_find[OF assms(2)] by (simp add: eq_commute)
  show ?thesis
    by (auto simp: capacity_query_def filter_key_find[OF assms(1)] v Let_def
        split: option.splits dest: find_key)
qed

lemma capacity_tiers_unique:
  assumes "distinct (map Event_id (events T))" "distinct (map Venue_id (venues T))"
  shows "(case capacity_tier1 f1 T eid of
            Some c \<Rightarrow> c
          | None \<Rightarrow> (case capacity_tier2 f2 T eid of Some c \<Rightarrow> c | None \<Rightarrow> capacity_cached T eid))
         = capacity_cached T eid"
  by (cases f1; cases f2)
     (simp_all add: capacity_tier1_def capacity_tier2_def capacity_cached_def select_function_def
        FN_GetAvailableCapacity_unique[OF assms] capacity_query_unique[OF assms]
        split: option.splits)

lemma get_available_capacity_unique:
  assumes "distinct (map Event_id (events (visible s)))" "distinct (map Venue_id (venues (visible s)))"
    and "cache s = visible s"
  shows "get_available_capacity f1 f2 s eid = capacity_cached (visible s) eid"
  unfolding get_available_capacity_def assms(3)
  by (rule capacity_tiers_unique[OF assms(1,2)])

lemma get_organizer_name_unique:
  assumes "distinct (map Organizer_id (organizers (visible s)))" and "cache s = visible s"
  shows "get_organizer_name f1 f2 s oid = name_cached (visible s) oid"
  by (cases f1; cases f2)
     (simp_all add: get_organizer_name_def name_tier1_def name_tier2_def name_cached_def
        FN_GetOrganizerName_def select_function_def filter_key_find[OF assms(1)] assms(2)
        split: option.splits)

lemma get_total_confirmed_tickets_tiers:
  assumes "cache s = visible s" and "f1 = NoFault \<or> f2 \<noteq> SqlError"
  shows "get_total_confirmed_tickets f1 f2 s eid = confirmed_tickets (tickets (visible s)) eid"
  using assms
  by (cases f1; cases f2)
     (simp_all add: get_total_confirmed_tickets_def count_tier1_def
        FN_GetTotalConfirmedTickets_def select_function_def)

lemma get_total_confirmed_tickets_slip:
  assumes "f1 \<noteq> NoFault" "f2 = SqlError"
  shows "get_total_confirmed_tickets f1 f2 s eid = 0"
  using assms
  by (cases f1)
     (simp_all add: get_total_confirmed_tickets_def count_tier1_def
        FN_GetTotalConfirmedTickets_def select_function_def)

text \<open>
  C9. On \<open>example_state\<close>, whose cache equals the server's tables, event 11 has one
  confirmed ticket. \<^verbatim>\<open>get_total_confirmed_tickets(11)\<close> returns 1 when the routine of
  tier 1 answers, when the routine is missing and the direct query answers, and when both
  raise an exception other than \<^verbatim>\<open>Error\<close> and the cached tickets are counted. When the
  routine is missing and the direct query fails with \<^verbatim>\<open>Error\<close>, \<^verbatim>\<open>execute_query\<close>
  returns the empty list and line 673 returns 0: the cached count of lines 674-676 is not
  reached. In the same situation \<^verbatim>\<open>get_available_capacity(11)\<close> and
  \<^verbatim>\<open>get_organizer_name(1)\<close> go on to the cache and return the values of the other tiers.
\<close>

theorem confirmed_count_differs_between_tiers:
  "cache example_state = visible example_state
   \<and> get_total_confirmed_tickets NoFault NoFault example_state 11 = 1
   \<and> get_total_confirmed_tickets SqlError NoFault example_state 11 = 1
   \<and> get_total_confirmed_tickets Crash Crash example_state 11 = 1
   \<and> get_total_confirmed_tickets SqlError SqlError example_state 11 = 0
   \<and> get_available_capacity NoFault NoFault example_state 11 = 4
   \<and> get_available_capacity SqlError SqlError example_state 11 = 4
   \<and> get_organizer_name NoFault NoFault example_state 1 = ''Ada''
   \<and> get_organizer_name SqlError SqlError example_state 1 = ''Ada''"
proof -
  have 0: "cache example_state = visible example_state" by code_simp
  have 1: "get_total_confirmed_tickets NoFault NoFault example_state 11 = 1" by code_simp
  have 2: "get_total_confirmed_tickets SqlError NoFault example_state 11 = 1" by code_simp
  have 3: "get_total_confirmed_tickets Crash Crash example_state 11 = 1" by code_simp
  have 4: "get_total_confirmed_tickets SqlError SqlError example_state 11 = 0" by code_simp
  have 5: "get_available_capacity NoFault NoFault example_state 11 = 4" by code_simp
  have 6: "get_available_capacity SqlError SqlError example_state 11 = 4" by code_simp
  have 7: "get_organizer_name NoFault NoFault example_state 1 = ''Ada''" by code_simp
  have 8: "get_organizer_name SqlError SqlError example_state 1 = ''Ada''" by code_simp
  from 0 1 2 3 4 5 6 7 8 show ?thesis by (intro conjI)
qed

section \<open>confirm_payment\<close>

lemma execute_write_visible:
  "visible (snd (execute_write f upd s)) = (if f = NoFault then upd (visible s) else visible s)"
  "cache (snd (execute_write f upd s)) = cache s"
  "logs (snd (execute_write f upd s)) = logs s"
  "db_log (snd (execute_write f upd s)) = db_log s"
  "sent (snd (execute_write f upd s)) = sent s"
  "fst (execute_write f upd s) =
     (case f of NoFault \<Rightarrow> Returned True | SqlError \<Rightarrow> Returned False | Crash \<Rightarrow> Raised)"
  by (cases f; simp add: commit_def visible_def)+

text \<open>When the routine \<^verbatim>\<open>SP_ConfirmPayment\<close> executes, the payment is inserted and the
  status set, whatever the ticket is.\<close>

lemma confirm_payment_procedure:
  assumes "\<forall>t. F t \<noteq> Crash"
  shows "fst (confirm_payment new_id today NoFault f_ins f_upd F s ticket_id payment_method amount) =
           Returned (recorded_message ticket_id)"
    and "db (snd (confirm_payment new_id today NoFault f_ins f_upd F s ticket_id payment_method amount)) =
           set_status ''Confirmed'' ticket_id
             (insert_payment new_id today ticket_id amount payment_method (visible s))"
    and "pending (snd (confirm_payment new_id today NoFault f_ins f_upd F s ticket_id payment_method amount)) =
           None"
  by (simp_all add: confirm_payment_def SP_ConfirmPayment_def refresh_then_returns[OF assms]
        refresh_then_db commit_fields visible_simps)

lemma confirm_payment_fallback:
  "confirm_payment new_id today SqlError f_ins f_upd F s ticket_id payment_method amount =
     confirm_payment_manual new_id today f_ins f_upd F s ticket_id payment_method amount"
  by (simp add: confirm_payment_def)

text \<open>The fallback of lines 624-631 rejects an unknown and a cancelled ticket and leaves
  the state as it is.\<close>

lemma confirm_payment_manual_rejects:
  "find (\<lambda>t. Ticket_id t = ticket_id) (tickets (cache s)) = None \<Longrightarrow>
     confirm_payment_manual new_id today f_ins f_upd F s ticket_id payment_method amount =
       (Returned (''Error: Ticket '' @ str ticket_id @ '' not found''), s)"
  "find (\<lambda>t. Ticket_id t = ticket_id) (tickets (cache s)) = Some ticket \<Longrightarrow>
   Status ticket = ''Cancelled'' \<Longrightarrow>
     confirm_payment_manual new_id today f_ins f_upd F s ticket_id payment_method amount =
       (Returned (''Error: Cannot process payment for cancelled ticket '' @ str ticket_id), s)"
  by (simp_all add: confirm_payment_manual_def)

text \<open>A reload in which every fetch executes leaves the cache equal to what the
  connection sees.\<close>

lemma refresh_all_data_mirrors:
  assumes "\<forall>t. F t = NoFault"
  shows "cache (snd (refresh_all_data F s)) = visible s"
proof -
  have nc: "\<forall>t. F t \<noteq> Crash" using assms by simp
  show ?thesis
    unfolding refresh_all_data_result[OF nc]
    by (simp add: assms)
qed

lemma refresh_then_mirrors:
  assumes "\<forall>t. F t = NoFault"
  shows "cache (snd (refresh_then F v s)) = visible s"
  using refresh_all_data_mirrors[OF assms, of s]
  by (auto simp: refresh_then_def split: prod.splits outcome.splits)

lemma no_faults_simps: "\<forall>t. no_faults t \<noteq> Crash" "\<forall>t. no_faults t = NoFault"
  by (simp_all add: no_faults_def)

text \<open>
  C4. Ticket 102 of \<open>example_state\<close> is cancelled and has no payment. When the routine
  \<^verbatim>\<open>SP_ConfirmPayment\<close> of lines 219-233 executes, \<^verbatim>\<open>confirm_payment(102, 'Cash', 5)\<close>
  returns \<^verbatim>\<open>Ticket 102 confirmed and payment recorded.\<close>, a payment for ticket 102 is
  stored and the ticket is confirmed: the call is not rejected. When the routine is missing,
  the fallback of lines 624-631 rejects the same call and leaves the state as it was; it
  rejects the unknown ticket 999 in the same way.
\<close>

theorem confirm_payment_cancelled_ticket_accepted:
  "map Status (filter (\<lambda>t. Ticket_id t = 102) (tickets (visible example_state))) = [''Cancelled'']
   \<and> filter (\<lambda>p. Payment_Ticket_id p = 102) (payments (visible example_state)) = []
   \<and> fst (confirm_payment 3 9 NoFault NoFault NoFault no_faults example_state 102 ''Cash'' 5) =
       Returned ''Ticket 102 confirmed and payment recorded.''
   \<and> map Status (filter (\<lambda>t. Ticket_id t = 102)
        (tickets (db (snd (confirm_payment 3 9 NoFault NoFault NoFault no_faults example_state
           102 ''Cash'' 5))))) = [''Confirmed'']
   \<and> filter (\<lambda>p. Payment_Ticket_id p = 102)
        (payments (db (snd (confirm_payment 3 9 NoFault NoFault NoFault no_faults example_state
           102 ''Cash'' 5)))) =
       [\<lparr>Payment_id = 3, Payment_Ticket_id = 102, Amount = 5, Method = ''Cash'', Payment_Date = 9\<rparr>]
   \<and> confirm_payment 3 9 SqlError NoFault NoFault no_faults example_state 102 ''Cash'' 5 =
       (Returned ''Error: Cannot process payment for cancelled ticket 102'', example_state)
   \<and> confirm_payment 3 9 SqlError NoFault NoFault no_faults example_state 999 ''Cash'' 5 =
       (Returned ''Error: Ticket 999 not found'', example_state)"
proof -
  note p = confirm_payment_procedure[OF no_faults_simps(1), of 3 9 NoFault NoFault example_state
      102 "''Cash''" 5]
  have 1: "map Status (filter (\<lambda>t. Ticket_id t = 102) (tickets (visible example_state))) =
      [''Cancelled'']"
    unfolding visible_example_state by code_simp
  have 2: "filter (\<lambda>p. Payment_Ticket_id p = 102) (payments (visible example_state)) = []"
    unfolding visible_example_state by code_simp
  have 3: "fst (confirm_payment 3 9 NoFault NoFault NoFault no_faults example_state 102 ''Cash'' 5) =
       Returned ''Ticket 102 confirmed and payment recorded.''"
    unfolding p by (simp add: recorded_message_def str_examples)
  have 4: "map Status (filter (\<lambda>t. Ticket_id t = 102)
        (tickets (db (snd (confirm_payment 3 9 NoFault NoFault NoFault no_faults example_state
           102 ''Cash'' 5))))) = [''Confirmed'']"
    unfolding p visible_example_state by code_simp
  have 5: "filter (\<lambda>p. Payment_Ticket_id p = 102)
        (payments (db (snd (confirm_payment 3 9 NoFault NoFault NoFault no_faults example_state
           102 ''Cash'' 5)))) =
       [\<lparr>Payment_id = 3, Payment_Ticket_id = 102, Amount = 5, Method = ''Cash'', Payment_Date = 9\<rparr>]"
    unfolding p visible_example_state by code_simp
  have c: "cache example_state = example_tables" by (simp add: example_state_def)
  have f102: "find (\<lambda>t. Ticket_id t = 102) (tickets (cache example_state)) =
      Some \<lparr>Ticket_id = 102, Ticket_Event_id = 10, Ticket_Participant_id = 1,
          Status = ''Cancelled'', Price = 5\<rparr>"
    unfolding c by code_simp
  have f999: "find (\<lambda>t. Ticket_id t = 999) (tickets (cache example_state)) = None"
    unfolding c by code_simp
  have 6: "confirm_payment 3 9 SqlError NoFault NoFault no_faults example_state 102 ''Cash'' 5 =
       (Returned ''Error: Cannot process payment for cancelled ticket 102'', example_state)"
    unfolding confirm_payment_fallback
    by (simp add: confirm_payment_manual_rejects(2)[OF f102] str_examples)
  have 7: "confirm_payment 3 9 SqlError NoFault NoFault no_faults example_state 999 ''Cash'' 5 =
       (Returned ''Error: Ticket 999 not found'', example_state)"
    unfolding confirm_payment_fallback
    by (simp add: confirm_payment_manual_rejects(1)[OF f999] str_examples)
  from 1 2 3 4 5 6 7 show ?thesis by (intro conjI)
qed



text \<open>What the connection sees after the fallback of \<^verbatim>\<open>confirm_payment\<close>, branch by
  branch.\<close>

lemma confirm_payment_manual_visible:
  "visible (snd (confirm_payment_manual new_id today f_ins f_upd F s ticket_id payment_method amount)) =
     (case find (\<lambda>t. Ticket_id t = ticket_id) (tickets (cache s)) of
        None \<Rightarrow> visible s
      | Some ticket \<Rightarrow>
          if Status ticket = ''Cancelled'' then visible s
          else
            (case find (\<lambda>p. Payment_Ticket_id p = ticket_id) (payments (cache s)) of
               Some existing_payment \<Rightarrow>
                 if Status ticket = ''Pending'' \<and> f_upd = NoFault
                 then set_status ''Confirmed'' ticket_id (visible s) else visible s
             | None \<Rightarrow>
                 (case f_ins of
                    Crash \<Rightarrow> visible s
                  | SqlError \<Rightarrow>
                      if f_upd = NoFault then set_status ''Confirmed'' ticket_id (visible s)
                      else visible s
                  | NoFault \<Rightarrow>
                      if f_upd = NoFault
                      then set_status ''Confirmed'' ticket_id
                             (insert_payment new_id today ticket_id amount payment_method (visible s))
                      else insert_payment new_id today ticket_id amount payment_method (visible s))))"
proof (cases "find (\<lambda>t. Ticket_id t = ticket_id) (tickets (cache s))")
  case None
  then show ?thesis by (simp add: confirm_payment_manual_def)
next
  case (Some ticket)
  note t = this
  show ?thesis
  proof (cases "find (\<lambda>p. Payment_Ticket_id p = ticket_id) (payments (cache s))")
    case None
    show ?thesis
      by (cases f_ins; cases f_upd)
         (simp_all add: confirm_payment_manual_def t None refresh_then_db commit_fields visible_simps)
  next
    case (Some existing_payment)
    show ?thesis
      by (cases f_upd)
         (simp_all add: confirm_payment_manual_def t Some refresh_then_db commit_fields visible_simps)
  qed
qed

text \<open>The two branches for a ticket with a payment on record.\<close>

lemma confirm_payment_manual_paid:
  assumes "find (\<lambda>t. Ticket_id t = ticket_id) (tickets (cache s)) = Some ticket"
    and "find (\<lambda>p. Payment_Ticket_id p = ticket_id) (payments (cache s)) = Some existing_payment"
  shows "Status ticket = ''Pending'' \<Longrightarrow> f_upd \<noteq> Crash \<Longrightarrow> \<forall>t. F t \<noteq> Crash \<Longrightarrow>
           fst (confirm_payment_manual new_id today f_ins f_upd F s ticket_id payment_method amount) =
             Returned (''Ticket '' @ str ticket_id @ '' confirmed. Payment already on record.'')"
    and "Status ticket = ''Pending'' \<Longrightarrow> \<forall>t. F t = NoFault \<Longrightarrow>
           cache (snd (confirm_payment_manual new_id today f_ins NoFault F s ticket_id payment_method amount)) =
             set_status ''Confirmed'' ticket_id (visible s)"
    and "Status ticket = ''Pending'' \<Longrightarrow>
           pending (snd (confirm_payment_manual new_id today f_ins NoFault F s ticket_id payment_method amount)) =
             None"
    and "Status ticket \<noteq> ''Pending'' \<Longrightarrow> Status ticket \<noteq> ''Cancelled'' \<Longrightarrow>
           confirm_payment_manual new_id today f_ins f_upd F s ticket_id payment_method amount =
             (Returned (''Error: Payment already exists for ticket '' @ str ticket_id), s)"
proof -
  show "Status ticket = ''Pending'' \<Longrightarrow> f_upd \<noteq> Crash \<Longrightarrow> \<forall>t. F t \<noteq> Crash \<Longrightarrow>
           fst (confirm_payment_manual new_id today f_ins f_upd F s ticket_id payment_method amount) =
             Returned (''Ticket '' @ str ticket_id @ '' confirmed. Payment already on record.'')"
    by (cases f_upd) (simp_all add: confirm_payment_manual_def assms refresh_then_returns)
  show "Status ticket = ''Pending'' \<Longrightarrow> \<forall>t. F t = NoFault \<Longrightarrow>
           cache (snd (confirm_payment_manual new_id today f_ins NoFault F s ticket_id payment_method amount)) =
             set_status ''Confirmed'' ticket_id (visible s)"
    by (simp add: confirm_payment_manual_def assms refresh_then_mirrors commit_fields visible_simps)
  show "Status ticket = ''Pending'' \<Longrightarrow>
           pending (snd (confirm_payment_manual new_id today f_ins NoFault F s ticket_id payment_method amount)) =
             None"
    by (simp add: confirm_payment_manual_def assms refresh_then_db commit_fields)
  show "Status ticket \<noteq> ''Pending'' \<Longrightarrow> Status ticket \<noteq> ''Cancelled'' \<Longrightarrow>
           confirm_payment_manual new_id today f_ins f_upd F s ticket_id payment_method amount =
             (Returned (''Error: Payment already exists for ticket '' @ str ticket_id), s)"
    by (simp add: confirm_payment_manual_def assms)
qed

text \<open>
  C6. Ticket 103 of \<open>example_state\<close> is pending and has payment 2 on record. When the
  routine \<^verbatim>\<open>SP_ConfirmPayment\<close> of lines 219-233 executes,
  \<^verbatim>\<open>confirm_payment(103, 'Card', 5)\<close> stores a second payment for the ticket, and calling
  it again stores a third and returns \<^verbatim>\<open>Ticket 103 confirmed and payment recorded.\<close>
  once more instead of reporting that the payment exists. When the routine is missing, the
  fallback of lines 633-642 does what the claim says: the first call confirms the ticket and
  leaves payment 2 the only one, the second returns
  \<^verbatim>\<open>Error: Payment already exists for ticket 103\<close> and changes nothing.
\<close>

theorem confirm_payment_duplicate_payment:
  "map Status (filter (\<lambda>t. Ticket_id t = 103) (tickets (visible example_state))) = [''Pending'']
   \<and> map Payment_id (filter (\<lambda>p. Payment_Ticket_id p = 103) (payments (visible example_state))) = [2]
   \<and> fst (confirm_payment 3 9 NoFault NoFault NoFault no_faults example_state 103 ''Card'' 5) =
       Returned ''Ticket 103 confirmed and payment recorded.''
   \<and> map Payment_id (filter (\<lambda>p. Payment_Ticket_id p = 103)
        (payments (db (snd (confirm_payment 3 9 NoFault NoFault NoFault no_faults example_state
           103 ''Card'' 5))))) = [2, 3]
   \<and> fst (confirm_payment 4 9 NoFault NoFault NoFault no_faults
          (snd (confirm_payment 3 9 NoFault NoFault NoFault no_faults example_state 103 ''Card'' 5))
          103 ''Card'' 5) =
       Returned ''Ticket 103 confirmed and payment recorded.''
   \<and> map Payment_id (filter (\<lambda>p. Payment_Ticket_id p = 103)
        (payments (db (snd (confirm_payment 4 9 NoFault NoFault NoFault no_faults
          (snd (confirm_payment 3 9 NoFault NoFault NoFault no_faults example_state 103 ''Card'' 5))
          103 ''Card'' 5))))) = [2, 3, 4]
   \<and> fst (confirm_payment 3 9 SqlError NoFault NoFault no_faults example_state 103 ''Card'' 5) =
       Returned ''Ticket 103 confirmed. Payment already on record.''
   \<and> map Status (filter (\<lambda>t. Ticket_id t = 103)
        (tickets (visible (snd (confirm_payment 3 9 SqlError NoFault NoFault no_faults example_state
           103 ''Card'' 5))))) = [''Confirmed'']
   \<and> map Payment_id (filter (\<lambda>p. Payment_Ticket_id p = 103)
        (payments (visible (snd (confirm_payment 3 9 SqlError NoFault NoFault no_faults example_state
           103 ''Card'' 5))))) = [2]
   \<and> confirm_payment 4 9 SqlError NoFault NoFault no_faults
          (snd (confirm_payment 3 9 SqlError NoFault NoFault no_faults example_state 103 ''Card'' 5))
          103 ''Card'' 5 =
       (Returned ''Error: Payment already exists for ticket 103'',
        snd (confirm_payment 3 9 SqlError NoFault NoFault no_faults example_state 103 ''Card'' 5))"
proof -
  let ?s1 = "snd (confirm_payment 3 9 NoFault NoFault NoFault no_faults example_state 103 ''Card'' 5)"
  let ?m1 = "snd (confirm_payment 3 9 SqlError NoFault NoFault no_faults example_state 103 ''Card'' 5)"
  note p = confirm_payment_procedure[OF no_faults_simps(1), of 3 9 NoFault NoFault example_state
      103 "''Card''" 5]
  note q = confirm_payment_procedure[OF no_faults_simps(1), of 4 9 NoFault NoFault ?s1
      103 "''Card''" 5]
  have v1: "visible ?s1 = db ?s1" by (rule visible_simps(1)) (rule p(3))
  have 1: "map Status (filter (\<lambda>t. Ticket_id t = 103) (tickets (visible example_state))) =
      [''Pending'']"
    unfolding visible_example_state by code_simp
  have 2: "map Payment_id (filter (\<lambda>p. Payment_Ticket_id p = 103)
      (payments (visible example_state))) = [2]"
    unfolding visible_example_state by code_simp
  have 3: "fst (confirm_payment 3 9 NoFault NoFault NoFault no_faults example_state 103 ''Card'' 5) =
       Returned ''Ticket 103 confirmed and payment recorded.''"
    unfolding p by (simp add: recorded_message_def str_examples)
  have 4: "map Payment_id (filter (\<lambda>p. Payment_Ticket_id p = 103) (payments (db ?s1))) = [2, 3]"
    unfolding p visible_example_state by code_simp
  have 5: "fst (confirm_payment 4 9 NoFault NoFault NoFault no_faults ?s1 103 ''Card'' 5) =
       Returned ''Ticket 103 confirmed and payment recorded.''"
    unfolding q by (simp add: recorded_message_def str_examples)
  have 6: "map Payment_id (filter (\<lambda>p. Payment_Ticket_id p = 103)
        (payments (db (snd (confirm_payment 4 9 NoFault NoFault NoFault no_faults ?s1
          103 ''Card'' 5))))) = [2, 3, 4]"
    unfolding q v1 p visible_example_state by code_simp
  have c: "cache example_state = example_tables" by (simp add: example_state_def)
  have ft: "find (\<lambda>t. Ticket_id t = 103) (tickets (cache example_state)) =
      Some \<lparr>Ticket_id = 103, Ticket_Event_id = 10, Ticket_Participant_id = 1,
          Status = ''Pending'', Price = 5\<rparr>"
    unfolding c by code_simp
  have fp: "find (\<lambda>p. Payment_Ticket_id p = 103) (payments (cache example_state)) =
      Some \<lparr>Payment_id = 2, Payment_Ticket_id = 103, Amount = 5, Method = ''Card'', Payment_Date = 4\<rparr>"
    unfolding c by code_simp
  have 7: "fst (confirm_payment 3 9 SqlError NoFault NoFault no_faults example_state 103 ''Card'' 5) =
       Returned ''Ticket 103 confirmed. Payment already on record.''"
    unfolding confirm_payment_fallback
    using confirm_payment_manual_paid(1)[OF ft fp, of NoFault no_faults 3 9 NoFault "''Card''" 5]
    by (simp add: no_faults_simps str_examples)
  have vm: "visible ?m1 = set_status ''Confirmed'' 103 example_tables"
    unfolding confirm_payment_fallback confirm_payment_manual_visible ft fp visible_example_state
    by simp
  have cm: "cache ?m1 = set_status ''Confirmed'' 103 example_tables"
    unfolding confirm_payment_fallback
    using confirm_payment_manual_paid(2)[OF ft fp _ no_faults_simps(2), of 3 9 NoFault "''Card''" 5]
    by (simp add: visible_example_state)
  have 8: "map Status (filter (\<lambda>t. Ticket_id t = 103) (tickets (visible ?m1))) = [''Confirmed'']"
    unfolding vm by code_simp
  have 9: "map Payment_id (filter (\<lambda>p. Payment_Ticket_id p = 103) (payments (visible ?m1))) = [2]"
    unfolding vm by code_simp
  have ft': "find (\<lambda>t. Ticket_id t = 103) (tickets (cache ?m1)) =
      Some \<lparr>Ticket_id = 103, Ticket_Event_id = 10, Ticket_Participant_id = 1,
          Status = ''Confirmed'', Price = 5\<rparr>"
    unfolding cm by code_simp
  have fp': "find (\<lambda>p. Payment_Ticket_id p = 103) (payments (cache ?m1)) =
      Some \<lparr>Payment_id = 2, Payment_Ticket_id = 103, Amount = 5, Method = ''Card'', Payment_Date = 4\<rparr>"
    unfolding cm by code_simp
  have 10: "confirm_payment 4 9 SqlError NoFault NoFault no_faults ?m1 103 ''Card'' 5 =
       (Returned ''Error: Payment already exists for ticket 103'', ?m1)"
    unfolding confirm_payment_fallback[of 4 9 NoFault NoFault no_faults "snd _"]
    using confirm_payment_manual_paid(4)[OF ft' fp', of 4 9 NoFault NoFault no_faults "''Card''" 5]
    by (simp add: str_examples confirm_payment_fallback)
  from 1 2 3 4 5 6 7 8 9 10 show ?thesis by (intro conjI)
qed





section \<open>Capacity\<close>

lemma get_available_capacity_tier1:
  "capacity_tier1 f1 (visible s) eid = Some c \<Longrightarrow> get_available_capacity f1 f2 s eid = c"
  by (simp add: get_available_capacity_def)

lemma add_ticket_visible:
  "visible (snd (add_ticket f_ins F s ticket_data)) =
     (if f_ins = NoFault then (visible s)\<lparr>tickets := tickets (visible s) @ [ticket_data]\<rparr>
      else visible s)"
  by (cases f_ins) (simp_all add: add_ticket_def refresh_then_db commit_fields visible_simps)

text \<open>What the connection sees after the dialog: the new ticket is there only when the
  price test and the capacity test let it through and the \<^verbatim>\<open>INSERT\<close> executes.\<close>

lemma app_add_ticket_visible:
  "visible (snd (app_add_ticket f1 f2 f_ins F s result)) =
     (if check_ticket_price (Price result)
         \<and> \<not> (get_available_capacity f1 f2 s (Ticket_Event_id result) \<le> 0
              \<and> Status result = ''Confirmed'')
         \<and> f_ins = NoFault
      then (visible s)\<lparr>tickets := tickets (visible s) @ [result]\<rparr>
      else visible s)"
proof -
  have a: "\<And>r. visible (snd (case r of
        (Raised, s') \<Rightarrow> (Raised, s')
      | (Returned True, s') \<Rightarrow> (Returned (ShowInfo ''Ticket added successfully!''), s')
      | (Returned False, s') \<Rightarrow> (Returned (ShowError ''Failed to add ticket to database''), s')))
      = visible (snd r)"
    by (auto split: prod.splits outcome.splits bool.splits)
  show ?thesis
    by (simp add: app_add_ticket_def Let_def a add_ticket_visible)
qed

lemma confirmed_tickets_append:
  "confirmed_tickets (ts @ [t]) eid =
     confirmed_tickets ts eid + (if Ticket_Event_id t = eid \<and> Status t = ''Confirmed'' then 1 else 0)"
  by (simp add: confirmed_tickets_def)

text \<open>
  C3, the claim as the specification has it. Event 10 of \<open>example_state\<close> is held at
  venue 1 of capacity 1 and has one confirmed ticket, so that \<^verbatim>\<open>get_available_capacity(10)\<close>
  is 0. \<^verbatim>\<open>confirm_payment\<close> for the pending ticket 103 of that event is not rejected: it
  returns \<^verbatim>\<open>Ticket 103 confirmed. Payment already on record.\<close>, and the event then has two
  confirmed tickets for its capacity of 1 and an available capacity of -1.
\<close>

theorem confirm_payment_exceeds_capacity_counterexample:
  "map Capacity (filter (\<lambda>v. Venue_id v = 1) (venues (visible example_state))) = [1]
   \<and> map Event_Venue_id (filter (\<lambda>e. Event_id e = 10) (events (visible example_state))) = [1]
   \<and> confirmed_tickets (tickets (visible example_state)) 10 = 1
   \<and> get_available_capacity NoFault NoFault example_state 10 = 0
   \<and> fst (confirm_payment 3 9 SqlError NoFault NoFault no_faults example_state 103 ''Card'' 5) =
       Returned ''Ticket 103 confirmed. Payment already on record.''
   \<and> confirmed_tickets (tickets (visible (snd (confirm_payment 3 9 SqlError NoFault NoFault
        no_faults example_state 103 ''Card'' 5)))) 10 = 2
   \<and> get_available_capacity NoFault NoFault (snd (confirm_payment 3 9 SqlError NoFault NoFault
        no_faults example_state 103 ''Card'' 5)) 10 = - 1"
proof -
  let ?m1 = "snd (confirm_payment 3 9 SqlError NoFault NoFault no_faults example_state 103 ''Card'' 5)"
  have c: "cache example_state = example_tables" by (simp add: example_state_def)
  have ft: "find (\<lambda>t. Ticket_id t = 103) (tickets (cache example_state)) =
      Some \<lparr>Ticket_id = 103, Ticket_Event_id = 10, Ticket_Participant_id = 1,
          Status = ''Pending'', Price = 5\<rparr>"
    unfolding c by code_simp
  have fp: "find (\<lambda>p. Payment_Ticket_id p = 103) (payments (cache example_state)) =
      Some \<lparr>Payment_id = 2, Payment_Ticket_id = 103, Amount = 5, Method = ''Card'', Payment_Date = 4\<rparr>"
    unfolding c by code_simp
  have vm: "visible ?m1 = set_status ''Confirmed'' 103 example_tables"
    unfolding confirm_payment_fallback confirm_payment_manual_visible ft fp visible_example_state
    by simp
  have 1: "map Capacity (filter (\<lambda>v. Venue_id v = 1) (venues (visible example_state))) = [1]"
    unfolding visible_example_state by code_simp
  have 2: "map Event_Venue_id (filter (\<lambda>e. Event_id e = 10) (events (visible example_state))) = [1]"
    unfolding visible_example_state by code_simp
  have 3: "confirmed_tickets (tickets (visible example_state)) 10 = 1"
    unfolding visible_example_state by code_simp
  have t0: "capacity_tier1 NoFault (visible example_state) 10 = Some 0"
    unfolding visible_example_state by code_simp
  have 4: "get_available_capacity NoFault NoFault example_state 10 = 0"
    by (rule get_available_capacity_tier1[OF t0])
  have 5: "fst (confirm_payment 3 9 SqlError NoFault NoFault no_faults example_state 103 ''Card'' 5) =
       Returned ''Ticket 103 confirmed. Payment already on record.''"
    unfolding confirm_payment_fallback
    using confirm_payment_manual_paid(1)[OF ft fp, of NoFault no_faults 3 9 NoFault "''Card''" 5]
    by (simp add: no_faults_simps str_examples)
  have 6: "confirmed_tickets (tickets (visible ?m1)) 10 = 2"
    unfolding vm by code_simp
  have t1: "capacity_tier1 NoFault (visible ?m1) 10 = Some (- 1)"
    unfolding vm by code_simp
  have 7: "get_available_capacity NoFault NoFault ?m1 10 = - 1"
    by (rule get_available_capacity_tier1[OF t1])
  from 1 2 3 4 5 6 7 show ?thesis by (intro conjI)
qed

text \<open>
  C3, amended. The capacity is guarded where a ticket is created through the dialog
  (\<^verbatim>\<open>EventManagementApp.add_ticket\<close>), and only there. Let the event and venue ids be
  unique, the cache equal to what the connection sees, and let an event be resolved to its
  venue with no more confirmed tickets than the venue's capacity. Then after the dialog,
  whatever ticket was entered and whichever statements failed, the event still has no more
  confirmed tickets than the capacity, and the events and venues are as before; and when
  the event is full, a ticket entered for it with status \<^verbatim>\<open>Confirmed\<close> and a positive
  price is refused with \<^verbatim>\<open>Cannot add ticket: Event capacity is full!\<close> and the state is
  left as it was.
\<close>

theorem app_add_ticket_capacity:
  assumes "distinct (map Event_id (events (visible s)))"
    and "distinct (map Venue_id (venues (visible s)))"
    and "cache s = visible s"
    and "find (\<lambda>e. Event_id e = eid) (events (visible s)) = Some e"
    and "find (\<lambda>v. Venue_id v = Event_Venue_id e) (venues (visible s)) = Some v"
    and "confirmed_tickets (tickets (visible s)) eid \<le> Capacity v"
  shows "confirmed_tickets (tickets (visible (snd (app_add_ticket f1 f2 f_ins F s result)))) eid
           \<le> Capacity v
       \<and> events (visible (snd (app_add_ticket f1 f2 f_ins F s result))) = events (visible s)
       \<and> venues (visible (snd (app_add_ticket f1 f2 f_ins F s result))) = venues (visible s)
       \<and> (confirmed_tickets (tickets (visible s)) eid = Capacity v
            \<and> Ticket_Event_id result = eid \<and> Status result = ''Confirmed'' \<and> 0 < Price result
          \<longrightarrow> app_add_ticket f1 f2 f_ins F s result =
                (Returned (ShowError ''Cannot add ticket: Event capacity is full!''), s))"
proof -
  have av: "get_available_capacity f1 f2 s eid =
      Capacity v - confirmed_tickets (tickets (visible s)) eid"
    by (simp add: get_available_capacity_unique[OF assms(1,2,3)] capacity_cached_def assms(4,5))
  have 1: "confirmed_tickets (tickets (visible (snd (app_add_ticket f1 f2 f_ins F s result)))) eid
           \<le> Capacity v"
  proof (cases "Ticket_Event_id result = eid \<and> Status result = ''Confirmed''")
    case True
    then show ?thesis
      using av assms(6) by (auto simp: app_add_ticket_visible confirmed_tickets_append)
  next
    case False
    then show ?thesis
      using assms(6) by (auto simp: app_add_ticket_visible confirmed_tickets_append)
  qed
  have 2: "events (visible (snd (app_add_ticket f1 f2 f_ins F s result))) = events (visible s)"
    by (simp add: app_add_ticket_visible)
  have 3: "venues (visible (snd (app_add_ticket f1 f2 f_ins F s result))) = venues (visible s)"
    by (simp add: app_add_ticket_visible)
  have 4: "confirmed_tickets (tickets (visible s)) eid = Capacity v
            \<and> Ticket_Event_id result = eid \<and> Status result = ''Confirmed'' \<and> 0 < Price result
          \<longrightarrow> app_add_ticket f1 f2 f_ins F s result =
                (Returned (ShowError ''Cannot add ticket: Event capacity is full!''), s)"
    using av by (auto simp: app_add_ticket_def check_ticket_price_def Let_def)
  from 1 2 3 4 show ?thesis by (intro conjI)
qed

theorem app_add_ticket_capacity_witness:
  "distinct (map Event_id (events (visible example_state)))
   \<and> distinct (map Venue_id (venues (visible example_state)))
   \<and> cache example_state = visible example_state
   \<and> confirmed_tickets (tickets (visible example_state)) 10 = 1
   \<and> app_add_ticket NoFault NoFault NoFault no_faults example_state
        \<lparr>Ticket_id = 105, Ticket_Event_id = 10, Ticket_Participant_id = 1,
          Status = ''Confirmed'', Price = 5\<rparr> =
       (Returned (ShowError ''Cannot add ticket: Event capacity is full!''), example_state)
   \<and> confirmed_tickets (tickets (visible (snd (app_add_ticket NoFault NoFault NoFault no_faults
        example_state
        \<lparr>Ticket_id = 105, Ticket_Event_id = 10, Ticket_Participant_id = 1,
          Status = ''Confirmed'', Price = 5\<rparr>)))) 10 \<le> 1
   \<and> confirmed_tickets (tickets (visible example_state)) 11 = 1
   \<and> confirmed_tickets (tickets (visible (snd (app_add_ticket NoFault NoFault NoFault no_faults
        example_state
        \<lparr>Ticket_id = 105, Ticket_Event_id = 11, Ticket_Participant_id = 1,
          Status = ''Confirmed'', Price = 5\<rparr>)))) 11 \<le> 5"
proof -
  let ?t10 = "\<lparr>Ticket_id = 105, Ticket_Event_id = 10, Ticket_Participant_id = 1,
          Status = ''Confirmed'', Price = 5\<rparr>"
  let ?t11 = "\<lparr>Ticket_id = 105, Ticket_Event_id = 11, Ticket_Participant_id = 1,
          Status = ''Confirmed'', Price = 5\<rparr>"
  let ?e10 = "\<lparr>Event_id = 10, Event_Name = ''Gala'', Event_Venue_id = 1, Event_Organizer_id = 1\<rparr>"
  let ?e11 = "\<lparr>Event_id = 11, Event_Name = ''Expo'', Event_Venue_id = 2, Event_Organizer_id = 1\<rparr>"
  let ?v1 = "\<lparr>Venue_id = 1, Venue_Name = ''Hall'', Capacity = 1\<rparr>"
  let ?v2 = "\<lparr>Venue_id = 2, Venue_Name = ''Arena'', Capacity = 5\<rparr>"
  have d1: "distinct (map Event_id (events (visible example_state)))"
    unfolding visible_example_state by code_simp
  have d2: "distinct (map Venue_id (venues (visible example_state)))"
    unfolding visible_example_state by code_simp
  have c: "cache example_state = visible example_state"
    unfolding visible_example_state by (simp add: example_state_def)
  have e10: "find (\<lambda>e. Event_id e = 10) (events (visible example_state)) = Some ?e10"
    unfolding visible_example_state by code_simp
  have v1: "find (\<lambda>v. Venue_id v = Event_Venue_id ?e10) (venues (visible example_state)) = Some ?v1"
    unfolding visible_example_state by code_simp
  have n10: "confirmed_tickets (tickets (visible example_state)) 10 = 1"
    unfolding visible_example_state by code_simp
  have e11: "find (\<lambda>e. Event_id e = 11) (events (visible example_state)) = Some ?e11"
    unfolding visible_example_state by code_simp
  have v2: "find (\<lambda>v. Venue_id v = Event_Venue_id ?e11) (venues (visible example_state)) = Some ?v2"
    unfolding visible_example_state by code_simp
  have n11: "confirmed_tickets (tickets (visible example_state)) 11 = 1"
    unfolding visible_example_state by code_simp
  have l10: "confirmed_tickets (tickets (visible example_state)) 10 \<le> Capacity ?v1"
    unfolding n10 by simp
  have l11: "confirmed_tickets (tickets (visible example_state)) 11 \<le> Capacity ?v2"
    unfolding n11 by simp
  note a = app_add_ticket_capacity[OF d1 d2 c e10 v1 l10, of NoFault NoFault NoFault no_faults ?t10]
  note b = app_add_ticket_capacity[OF d1 d2 c e11 v2 l11, of NoFault NoFault NoFault no_faults ?t11]
  have 1: "app_add_ticket NoFault NoFault NoFault no_faults example_state ?t10 =
       (Returned (ShowError ''Cannot add ticket: Event capacity is full!''), example_state)"
    using a n10 by simp
  have 2: "confirmed_tickets (tickets (visible (snd (app_add_ticket NoFault NoFault NoFault
        no_faults example_state ?t10)))) 10 \<le> 1"
    using a by simp
  have 3: "confirmed_tickets (tickets (visible (snd (app_add_ticket NoFault NoFault NoFault
        no_faults example_state ?t11)))) 11 \<le> 5"
    using b by simp
  from d1 d2 c n10 1 2 n11 3 show ?thesis by (intro conjI)
qed

end
